theory Spec2Isabelle
  imports Complex_Main "HOL-Library.Word" "HOL-Library.List_Lexorder" "HOL-Library.Char_ord"
begin

section \<open>The dashboard script streamlit_app_optimized.py\<close>

text \<open>
  The script is one top-to-bottom Streamlit page. Its own logic is modelled function by
  function below, in the order of the script. The library routines it calls (Pillow's
  \<open>Image.new\<close>, \<open>putalpha\<close>, \<open>resize\<close>, \<open>alpha_composite\<close>; numpy's \<open>polyfit\<close>
  and \<open>corrcoef\<close>) are modelled after the library implementations, each in a definition
  of its own that keeps the library's name. Column values are float64 in the script; a
  value read from the CSV is the real number it denotes, and sums, differences and
  finite quotients are taken without rounding. What floating point decides on its own
  (the quotient inside the correlation, the resampling filter) is a parameter.
\<close>

subsection \<open>Raster images (Pillow, mode RGBA)\<close>

type_synonym u8 = "8 word"

text \<open>A pixel is (red, green, blue, alpha); an image is its size (width, height) and its
  pixels in row-major order, as \<open>Image.getdata\<close> lists them.\<close>

type_synonym rgba8 = "u8 \<times> u8 \<times> u8 \<times> u8"

record image =
  im_size :: "nat \<times> nat"
  im_data :: "rgba8 list"

definition wf_image :: "image \<Rightarrow> bool" where
  "wf_image im = (length (im_data im) = fst (im_size im) * snd (im_size im))"

fun rgb_of :: "rgba8 \<Rightarrow> u8 \<times> u8 \<times> u8" where
  "rgb_of (pr, pg, pb, pa) = (pr, pg, pb)"

fun alpha_of :: "rgba8 \<Rightarrow> u8" where
  "alpha_of (pr, pg, pb, pa) = pa"

fun with_alpha :: "u8 \<Rightarrow> rgba8 \<Rightarrow> rgba8" where
  "with_alpha v (pr, pg, pb, pa) = (pr, pg, pb, v)"

datatype py_error = FileNotFoundError | ValueError | IndexError | LinAlgError | OtherError

text \<open>\<open>Image.new('RGBA', size, color)\<close>: every pixel is \<open>color\<close>.\<close>

definition Image_new :: "nat \<times> nat \<Rightarrow> rgba8 \<Rightarrow> image" where
  "Image_new sz color = \<lparr>im_size = sz, im_data = replicate (fst sz * snd sz) color\<rparr>"

text \<open>\<open>CLIP8\<close> of libImaging: saturate an int to 0..255.\<close>

definition CLIP8 :: "int \<Rightarrow> u8" where
  "CLIP8 v = (if v \<le> 0 then 0 else if v \<ge> 255 then 255 else word_of_int v)"

text \<open>\<open>im.putalpha(v)\<close> with an integer \<open>v\<close> on an RGBA image: \<open>fillband(3, v)\<close>
  stores \<open>CLIP8(v)\<close> in the alpha band of every pixel. The script calls it on a copy.\<close>

definition putalpha :: "image \<Rightarrow> int \<Rightarrow> image" where
  "putalpha im v = im\<lparr>im_data := map (with_alpha (CLIP8 v)) (im_data im)\<rparr>"

text \<open>\<open>im.resize(size, LANCZOS)\<close>: an image of the requested size, each pixel computed by
  the resampling filter from the source image. The filter works in floating point and is
  a parameter: \<open>flt im size (x, y)\<close> is the pixel at column \<open>x\<close>, row \<open>y\<close>.\<close>

type_synonym resampler = "image \<Rightarrow> nat \<times> nat \<Rightarrow> nat \<times> nat \<Rightarrow> rgba8"

definition resize :: "resampler \<Rightarrow> image \<Rightarrow> nat \<times> nat \<Rightarrow> image" where
  "resize flt im sz =
     \<lparr>im_size = sz,
      im_data = concat (map (\<lambda>y. map (\<lambda>x. flt im sz (x, y)) [0..<fst sz]) [0..<snd sz])\<rparr>"

text \<open>\<open>SHIFTFORDIV255(a) = ((a >> 8) + a) >> 8\<close>, the rounded division by 255 of
  libImaging; \<open>PRECISION_BITS\<close> is 7. The intermediates are UINT32 in C; they stay below
  \<open>2 ^ 32\<close> (lemma \<open>composite_no_overflow\<close>), so they are natural numbers here.\<close>

definition SHIFTFORDIV255 :: "nat \<Rightarrow> nat" where
  "SHIFTFORDIV255 x = ((x div 256) + x) div 256"

definition PRECISION_BITS :: nat where
  "PRECISION_BITS = 7"

definition coef1_of :: "u8 \<Rightarrow> u8 \<Rightarrow> nat" where
  "coef1_of da sa =
     unat sa * 255 * 255 * 2 ^ PRECISION_BITS div (unat sa * 255 + unat da * (255 - unat sa))"

definition blend_channel :: "u8 \<Rightarrow> u8 \<Rightarrow> u8 \<Rightarrow> u8 \<Rightarrow> u8" where
  "blend_channel da sa dc sc =
     (let coef1 = coef1_of da sa;
          coef2 = 255 * 2 ^ PRECISION_BITS - coef1;
          tmp = unat sc * coef1 + unat dc * coef2
      in of_nat (SHIFTFORDIV255 (tmp + 128 * 2 ^ PRECISION_BITS) div 2 ^ PRECISION_BITS))"

text \<open>One pixel of \<open>ImagingAlphaComposite(dst, src)\<close>: a fully transparent source pixel
  copies the destination pixel; otherwise the integer "over" formula.\<close>

fun composite_pixel :: "rgba8 \<Rightarrow> rgba8 \<Rightarrow> rgba8" where
  "composite_pixel (dr, dg, db, da) (sr, sg, sb, sa) =
     (if sa = 0 then (dr, dg, db, da)
      else (blend_channel da sa dr sr, blend_channel da sa dg sg, blend_channel da sa db sb,
            of_nat (SHIFTFORDIV255 (unat sa * 255 + unat da * (255 - unat sa) + 128))))"

text \<open>\<open>Image.alpha_composite(im1, im2)\<close>: ValueError ("images do not match") when the
  sizes differ, else the pixelwise composite of \<open>im2\<close> over \<open>im1\<close>.\<close>

definition alpha_composite :: "image \<Rightarrow> image \<Rightarrow> py_error + image" where
  "alpha_composite im1 im2 =
     (if im_size im1 \<noteq> im_size im2 then Inl ValueError
      else Inr \<lparr>im_size = im_size im1,
                im_data = map2 composite_pixel (im_data im1) (im_data im2)\<rparr>)"

subsection \<open>Overlay view (script lines 285-340)\<close>

text \<open>\<open>int(x)\<close> on a float truncates towards zero.\<close>

definition py_int :: "real \<Rightarrow> int" where
  "py_int x = (if 0 \<le> x then \<lfloor>x\<rfloor> else \<lceil>x\<rceil>)"

datatype blend_mode = Normal | Multiplicar | Pantalla

text \<open>"Asegurar mismo tamano": the T21 image is resized only when the sizes differ.\<close>

definition ensure_same_size :: "resampler \<Rightarrow> image \<Rightarrow> image \<Rightarrow> image" where
  "ensure_same_size LANCZOS img_no2 img_t21 =
     (if im_size img_no2 \<noteq> im_size img_t21 then resize LANCZOS img_t21 (im_size img_no2)
      else img_t21)"

text \<open>The body of the branch taken when both PNG files exist. \<open>img_no2\<close> and \<open>img_t21\<close>
  are the two files after \<open>Image.open(...).convert('RGBA')\<close>; \<open>blend_mode\<close> is the value
  of the "Mezcla" selectbox.\<close>

definition overlay ::
  "resampler \<Rightarrow> real \<Rightarrow> real \<Rightarrow> blend_mode \<Rightarrow> image \<Rightarrow> image \<Rightarrow> py_error + image" where
  "overlay LANCZOS opacity_no2 opacity_t21 blend_mode img_no2 img_t21_file =
     (let img_t21 = ensure_same_size LANCZOS img_no2 img_t21_file;
          base = Image_new (im_size img_no2) (255, 255, 255, 255);
          img_no2_alpha = putalpha img_no2 (py_int (255 * opacity_no2));
          img_t21_alpha = putalpha img_t21 (py_int (255 * opacity_t21))
      in case alpha_composite base img_no2_alpha of
           Inl e \<Rightarrow> Inl e
         | Inr result \<Rightarrow> alpha_composite result img_t21_alpha)"

text \<open>A concrete resampling filter, nearest neighbour, to instantiate the filter
  parameter in the examples below.\<close>

definition nearest :: resampler where
  "nearest im sz xy =
     (let i = (snd xy * snd (im_size im) div snd sz) * fst (im_size im)
                + fst xy * fst (im_size im) div fst sz
      in if i < length (im_data im) then im_data im ! i else (0, 0, 0, 0))"

subsection \<open>The data table (pandas DataFrame with the columns Fecha, NO2, T21)\<close>

text \<open>A timestamp is (year, month, day); pandas timestamps have four-digit years. The
  frame returned by \<open>read_csv\<close> has the default index 0, 1, 2, ..., so the index label
  of a row is its position.\<close>

type_synonym timestamp = "nat \<times> nat \<times> nat"

record row =
  Fecha :: timestamp
  NO2 :: real
  T21 :: real

type_synonym dataframe = "row list"

definition digit_char :: "nat \<Rightarrow> char" where
  "digit_char n = ''0123456789'' ! (n mod 10)"

text \<open>\<open>strftime('%Y-%m')\<close>: the year on four digits, a dash, the month on two.\<close>

fun strftime_Ym :: "timestamp \<Rightarrow> string" where
  "strftime_Ym (y, m, d) =
     [digit_char (y div 1000), digit_char (y div 100), digit_char (y div 10), digit_char y,
      CHR ''-'', digit_char (m div 10), digit_char m]"

text \<open>\<open>Series.unique()\<close> keeps the first occurrence of each value, in order.\<close>

definition unique :: "'a list \<Rightarrow> 'a list" where
  "unique xs = rev (remdups (rev xs))"

text \<open>A float64 value: a number, an infinity or NaN.\<close>

datatype float64 = Finite real | PosInf | NegInf | NaN

text \<open>The division of two numpy floats. Dividing by zero does not raise: it gives an
  infinity with the sign of the numerator, and NaN for 0/0 (the zero divisor is the
  \<open>+0.0\<close> that \<open>read_csv\<close> gives for a field \<open>0\<close> or \<open>0.0\<close>).\<close>

definition true_divide :: "real \<Rightarrow> real \<Rightarrow> float64" where
  "true_divide x y =
     (if y \<noteq> 0 then Finite (x / y)
      else if 0 < x then PosInf else if x < 0 then NegInf else NaN)"

text \<open>The product of a float and a number.\<close>

fun multiply :: "float64 \<Rightarrow> real \<Rightarrow> float64" where
  "multiply (Finite x) k = Finite (x * k)"
| "multiply PosInf k = (if 0 < k then PosInf else if k < 0 then NegInf else NaN)"
| "multiply NegInf k = (if 0 < k then NegInf else if k < 0 then PosInf else NaN)"
| "multiply NaN k = NaN"

text \<open>An f-string with one formatted number: \<open>FText spec v suffix\<close> is
  \<open>f"{v:spec}suffix"\<close>. The digits themselves are not modelled.\<close>

datatype ftext = FText string float64 string

subsection \<open>What the page shows\<close>

datatype theme = Claro | Oscuro

datatype view_mode = Comparacion_lado_a_lado | Superposicion_con_control | Vista_individual

datatype layer_choice = Capa_NO2 | Capa_T21

text \<open>The texts of the script, by name (labels are not ASCII in the script).
  \<open>Coeficiente_de_correlacion xs ys\<close> is the box with the coefficient of the two columns
  formatted with \<open>.3f\<close>.\<close>

datatype message =
    Archivos_no_encontrados
  | Autenticar_Earth_Engine
  | Main_title
  | Subtitle
  | Usa_las_pestanas
  | Carpeta_no_encontrada
  | Titulo_NO2
  | Titulo_T21
  | Imagen_no_disponible_nombre string
  | Imagen_no_disponible
  | Una_o_ambas_no_disponibles
  | Mapa_superpuesto
  | Leyenda_opacidad layer_choice real
  | Leyendas_de_colores
  | Tips_de_uso
  | Separador
  | Salto_de_linea
  | Estadisticas
  | Coeficiente_de_correlacion "real list" "real list"
  | Interpretacion_texto
  | Acerca_de
  | Footer

datatype metric_label = Metric_NO2 | Metric_T21 | Delta_NO2 | Delta_T21

datatype widget =
    Tema | Mes "string list" | Pestanas | Modo_de_visualizacion | Opacidad_NO2
  | Opacidad_T21 | Mezcla | Capa

datatype chart = Series_temporales | Dispersion

datatype correlation_label = Correlacion_Debil | Correlacion_Moderada | Correlacion_Fuerte

text \<open>A cell of a DataFrame object, and the object itself: its three columns. The
  table view builds a second frame whose cells are strings.\<close>

datatype cell = Ts timestamp | Fl real | Str string | Fmt ftext

record frame =
  col_Fecha :: "cell list"
  col_NO2 :: "cell list"
  col_T21 :: "cell list"

text \<open>\<open>Interpretacion xs ys\<close> is the coloured box with the strength label of the
  coefficient of the two columns.\<close>

datatype element =
    Widget widget
  | Style theme
  | Markdown message
  | Subheader string
  | St_error message
  | St_warning message
  | St_info message
  | St_code
  | Metric metric_label ftext "ftext option"
  | St_image image
  | Plotly_chart chart
  | Resumen_anual
  | St_dataframe frame
  | Interpretacion "real list" "real list"

text \<open>A run of (a part of) the script: what it has put on the page, and how it ended.
  \<open>st.stop()\<close> and an uncaught exception both end the run; nothing after them is
  rendered.\<close>

datatype status = Completed | Stopped | Raised py_error

type_synonym rendering = "element list \<times> status"

definition then_render :: "rendering \<Rightarrow> rendering \<Rightarrow> rendering" where
  "then_render a b = (case snd a of Completed \<Rightarrow> (fst a @ fst b, snd b) | _ \<Rightarrow> a)"

definition shows_only :: "element list \<Rightarrow> rendering" where
  "shows_only es = (es, Completed)"

subsection \<open>Files and widget values\<close>

datatype 'a disk_file = Absent | Unreadable | Content 'a

text \<open>The files under \<open>DATA_DIR\<close>. A file that is present holds what the library
  call that reads it returns (\<open>Unreadable\<close>: the call raises something other than
  FileNotFoundError). \<open>png_files name\<close> is the file \<open>monthly_images/name\<close>.\<close>

record filesystem =
  datos_no2_t21_csv :: "dataframe disk_file"
  metadata_json :: "string disk_file"
  monthly_images_exists :: bool
  png_files :: "string \<Rightarrow> image option"

record widgets =
  theme_selector :: theme
  selected_month :: string
  view_mode_w :: view_mode
  opacity_no2_w :: real
  opacity_t21_w :: real
  blend_mode_w :: blend_mode
  layer_choice_w :: layer_choice

subsection \<open>load\_data (script lines 151-176)\<close>

text \<open>The CSV is read first, then the metadata; only FileNotFoundError is caught.\<close>

definition load_data ::
  "filesystem \<Rightarrow> py_error + (dataframe option \<times> string option \<times> message option)" where
  "load_data fs =
     (case datos_no2_t21_csv fs of
        Absent \<Rightarrow> Inr (None, None, Some Archivos_no_encontrados)
      | Unreadable \<Rightarrow> Inl OtherError
      | Content df \<Rightarrow>
          (case metadata_json fs of
             Absent \<Rightarrow> Inr (None, None, Some Archivos_no_encontrados)
           | Unreadable \<Rightarrow> Inl OtherError
           | Content metadata \<Rightarrow> Inr (Some df, Some metadata, None)))"

text \<open>\<open>@st.cache_data\<close>: the first call that returns stores its result; later calls
  return the stored result without running the body.\<close>

type_synonym loaded = "dataframe option \<times> string option \<times> message option"

definition load_data_cached ::
  "loaded option \<Rightarrow> filesystem \<Rightarrow> (py_error + loaded) \<times> loaded option" where
  "load_data_cached cache fs =
     (case cache of
        Some res \<Rightarrow> (Inr res, cache)
      | None \<Rightarrow>
          (case load_data fs of
             Inl e \<Rightarrow> (Inl e, None)
           | Inr res \<Rightarrow> (Inr res, Some res)))"

subsection \<open>Theme selector and style (script lines 37-146)\<close>

definition theme_block :: "widgets \<Rightarrow> rendering" where
  "theme_block w = shows_only [Widget Tema, Style (theme_selector w)]"

subsection \<open>Error branch (script lines 183-187)\<close>

definition error_block :: "message \<Rightarrow> rendering" where
  "error_block error =
     ([St_error error, St_info Autenticar_Earth_Engine, St_code], Stopped)"

subsection \<open>Header and top controls (script lines 192-235)\<close>

definition header_block :: rendering where
  "header_block = shows_only [Markdown Main_title, Markdown Subtitle]"

definition available_months :: "dataframe \<Rightarrow> string list" where
  "available_months df = sort (unique (map (\<lambda>r. strftime_Ym (Fecha r)) df))"

text \<open>\<open>df[df['Fecha'].dt.strftime('%Y-%m') == selected_month]\<close>: the rows of the month,
  each with its index label.\<close>

definition rows_of_month :: "dataframe \<Rightarrow> string \<Rightarrow> (nat \<times> row) list" where
  "rows_of_month df month =
     filter (\<lambda>(i, r). strftime_Ym (Fecha r) = month) (zip [0..<length df] df)"

definition delta_metrics :: "dataframe \<Rightarrow> nat \<Rightarrow> row \<Rightarrow> element list" where
  "delta_metrics df current_idx selected_data =
     (if length df > 1 then
        (if current_idx > 0 then
           (let prev_no2 = NO2 (df ! (current_idx - 1));
                prev_t21 = T21 (df ! (current_idx - 1));
                delta_no2 = multiply (true_divide (NO2 selected_data - prev_no2) prev_no2) 100;
                delta_t21 = T21 selected_data - prev_t21
            in [Metric Delta_NO2 (FText ''+.1f'' delta_no2 ''%'')
                  (Some (FText ''+.1f'' delta_no2 ''%'')),
                Metric Delta_T21 (FText ''+.1f'' (Finite delta_t21) '' K'')
                  (Some (FText ''+.1f'' (Finite delta_t21) '' K''))])
         else [])
      else [])"

definition controls_block :: "dataframe \<Rightarrow> widgets \<Rightarrow> rendering" where
  "controls_block df w =
     (case rows_of_month df (selected_month w) of
        [] \<Rightarrow> ([Widget (Mes (available_months df))], Raised IndexError)
      | (current_idx, selected_data) # _ \<Rightarrow>
          shows_only
            ([Widget (Mes (available_months df)),
              Metric Metric_NO2 (FText ''.2e'' (Finite (NO2 selected_data)) '' mol/m2'') None,
              Metric Metric_T21 (FText ''.1f'' (Finite (T21 selected_data)) '' K'') None]
             @ delta_metrics df current_idx selected_data
             @ [St_info Usa_las_pestanas]))"

subsection \<open>Tab 1: map view (script lines 245-400)\<close>

definition png_name :: "string \<Rightarrow> string \<Rightarrow> string" where
  "png_name var month = var @ ''_'' @ month @ ''.png''"

definition lado_a_lado :: "filesystem \<Rightarrow> string \<Rightarrow> element list" where
  "lado_a_lado fs month =
     [Markdown Titulo_NO2]
     @ (case png_files fs (png_name ''no2'' month) of
          Some img \<Rightarrow> [St_image img]
        | None \<Rightarrow> [St_error (Imagen_no_disponible_nombre (png_name ''no2'' month))])
     @ [Markdown Titulo_T21]
     @ (case png_files fs (png_name ''t21'' month) of
          Some img \<Rightarrow> [St_image img]
        | None \<Rightarrow> [St_error (Imagen_no_disponible_nombre (png_name ''t21'' month))])"

definition superposicion :: "resampler \<Rightarrow> filesystem \<Rightarrow> widgets \<Rightarrow> rendering" where
  "superposicion LANCZOS fs w =
     then_render
       (shows_only [Markdown Mapa_superpuesto, Widget Opacidad_NO2, Widget Opacidad_T21,
                    Widget Mezcla])
       (case (png_files fs (png_name ''no2'' (selected_month w)),
              png_files fs (png_name ''t21'' (selected_month w))) of
          (Some img_no2, Some img_t21) \<Rightarrow>
            (case overlay LANCZOS (opacity_no2_w w) (opacity_t21_w w) (blend_mode_w w)
                    img_no2 img_t21 of
               Inl e \<Rightarrow> ([], Raised e)
             | Inr result \<Rightarrow>
                 shows_only [St_image result,
                             Markdown (Leyenda_opacidad Capa_NO2 (opacity_no2_w w)),
                             Markdown (Leyenda_opacidad Capa_T21 (opacity_t21_w w))])
        | _ \<Rightarrow> shows_only [St_error Una_o_ambas_no_disponibles])"

definition vista_individual :: "filesystem \<Rightarrow> widgets \<Rightarrow> element list" where
  "vista_individual fs w =
     [Widget Capa, Markdown Separador]
     @ (if layer_choice_w w = Capa_NO2 then
          [Markdown Titulo_NO2]
          @ (case png_files fs (png_name ''no2'' (selected_month w)) of
               Some img \<Rightarrow> [St_image img]
             | None \<Rightarrow> [St_error Imagen_no_disponible])
        else
          [Markdown Titulo_T21]
          @ (case png_files fs (png_name ''t21'' (selected_month w)) of
               Some img \<Rightarrow> [St_image img]
             | None \<Rightarrow> [St_error Imagen_no_disponible]))"

definition map_tab :: "resampler \<Rightarrow> filesystem \<Rightarrow> widgets \<Rightarrow> rendering" where
  "map_tab LANCZOS fs w =
     then_render (shows_only [Subheader (selected_month w)])
       (if \<not> monthly_images_exists fs then shows_only [St_warning Carpeta_no_encontrada]
        else
          then_render (shows_only [Widget Modo_de_visualizacion, Markdown Separador])
            (then_render
               (case view_mode_w w of
                  Comparacion_lado_a_lado \<Rightarrow> shows_only (lado_a_lado fs (selected_month w))
                | Superposicion_con_control \<Rightarrow> superposicion LANCZOS fs w
                | Vista_individual \<Rightarrow> shows_only (vista_individual fs w))
               (shows_only [Markdown Leyendas_de_colores, St_info Tips_de_uso])))"

subsection \<open>Tab 2: time series and data table (script lines 405-526)\<close>

text \<open>Objects live in a store; a variable holds the address of its object.
  \<open>next_addr\<close> is the first address never allocated.\<close>

record store =
  objects :: "nat \<Rightarrow> frame option"
  next_addr :: nat

definition to_frame :: "dataframe \<Rightarrow> frame" where
  "to_frame df =
     \<lparr>col_Fecha = map (\<lambda>r. Ts (Fecha r)) df,
      col_NO2 = map (\<lambda>r. Fl (NO2 r)) df,
      col_T21 = map (\<lambda>r. Fl (T21 r)) df\<rparr>"

text \<open>\<open>df.copy()\<close>: a new object with the same cells.\<close>

definition df_copy :: "store \<Rightarrow> nat \<Rightarrow> py_error + (store \<times> nat)" where
  "df_copy st a =
     (case objects st a of
        None \<Rightarrow> Inl OtherError
      | Some f \<Rightarrow>
          Inr (st\<lparr>objects := (objects st)(next_addr st := Some f),
                   next_addr := Suc (next_addr st)\<rparr>, next_addr st))"

text \<open>\<open>obj[column] = values\<close>: replaces a column of the object at the address, in place.\<close>

datatype column = Col_Fecha | Col_NO2 | Col_T21

fun set_column :: "column \<Rightarrow> cell list \<Rightarrow> frame \<Rightarrow> frame" where
  "set_column Col_Fecha vs f = f\<lparr>col_Fecha := vs\<rparr>"
| "set_column Col_NO2 vs f = f\<lparr>col_NO2 := vs\<rparr>"
| "set_column Col_T21 vs f = f\<lparr>col_T21 := vs\<rparr>"

fun get_column :: "column \<Rightarrow> frame \<Rightarrow> cell list" where
  "get_column Col_Fecha f = col_Fecha f"
| "get_column Col_NO2 f = col_NO2 f"
| "get_column Col_T21 f = col_T21 f"

definition setitem :: "store \<Rightarrow> nat \<Rightarrow> column \<Rightarrow> cell list \<Rightarrow> py_error + store" where
  "setitem st a c vs =
     (case objects st a of
        None \<Rightarrow> Inl OtherError
      | Some f \<Rightarrow> Inr (st\<lparr>objects := (objects st)(a := Some (set_column c vs f))\<rparr>))"

text \<open>\<open>.dt.strftime('%Y-%m')\<close> needs timestamps; \<open>f"{x:.2e}"\<close> needs a float.\<close>

fun dt_strftime_Ym :: "cell \<Rightarrow> cell option" where
  "dt_strftime_Ym (Ts t) = Some (Str (strftime_Ym t))"
| "dt_strftime_Ym _ = None"

fun format_float :: "string \<Rightarrow> cell \<Rightarrow> cell option" where
  "format_float spec (Fl x) = Some (Fmt (FText spec (Finite x) []))"
| "format_float spec _ = None"

text \<open>\<open>obj[column] = obj[column].apply(g)\<close>; a cell that \<open>g\<close> rejects raises.\<close>

definition apply_column ::
  "store \<Rightarrow> nat \<Rightarrow> column \<Rightarrow> (cell \<Rightarrow> cell option) \<Rightarrow> py_error + store" where
  "apply_column st a c g =
     (case objects st a of
        None \<Rightarrow> Inl OtherError
      | Some f \<Rightarrow>
          (case those (map g (get_column c f)) of
             None \<Rightarrow> Inl ValueError
           | Some vs \<Rightarrow> setitem st a c vs))"

text \<open>The expander "Ver Tabla de Datos Completa" (lines 521-526): returns the store and
  the address of \<open>df_display\<close>.\<close>

definition table_view :: "store \<Rightarrow> nat \<Rightarrow> py_error + (store \<times> nat)" where
  "table_view st df =
     (case df_copy st df of
        Inl e \<Rightarrow> Inl e
      | Inr (st1, df_display) \<Rightarrow>
          (case apply_column st1 df_display Col_Fecha dt_strftime_Ym of
             Inl e \<Rightarrow> Inl e
           | Inr st2 \<Rightarrow>
               (case apply_column st2 df_display Col_NO2 (format_float ''.2e'') of
                  Inl e \<Rightarrow> Inl e
                | Inr st3 \<Rightarrow>
                    (case apply_column st3 df_display Col_T21 (format_float ''.2f'') of
                       Inl e \<Rightarrow> Inl e
                     | Inr st4 \<Rightarrow> Inr (st4, df_display)))))"

text \<open>\<open>np.polyfit(x, y, 1)\<close> divides each column of the Vandermonde matrix of \<open>x\<close> by
  its norm before it calls \<open>lstsq\<close>. The column of ones has the norm \<open>sqrt(len(x))\<close>; when
  the column \<open>x\<close> has the norm zero the division gives NaN and \<open>lstsq\<close> raises LinAlgError.\<close>

definition polyfit_fails :: "real list \<Rightarrow> bool" where
  "polyfit_fails x = (sum_list (map (\<lambda>v. v * v) x) = 0)"

text \<open>The tab. The trend lines are fitted over \<open>range(len(df))\<close> (lines 431 and 460)
  before the chart is put on the page. The chart and the four summary metrics are not
  modelled further. The loaded table is the object at address 0 of the store the tab
  works on.\<close>

definition series_tab :: "dataframe \<Rightarrow> rendering" where
  "series_tab df =
     then_render (shows_only [Subheader ''Evolucion Temporal''])
       (if polyfit_fails (map real [0..<length df]) then ([], Raised LinAlgError)
        else
          then_render
            (shows_only [Plotly_chart Series_temporales, Markdown Estadisticas, Resumen_anual])
            (case table_view \<lparr>objects = (\<lambda>a. None)(0 := Some (to_frame df)), next_addr = 1\<rparr> 0 of
               Inl e \<Rightarrow> ([], Raised e)
             | Inr (st, df_display) \<Rightarrow>
                 (case objects st df_display of
                    None \<Rightarrow> ([], Raised OtherError)
                  | Some shown \<Rightarrow> shows_only [St_dataframe shown])))"

subsection \<open>Tab 3: correlation (script lines 531-638)\<close>

text \<open>\<open>np.clip(c, -1, 1)\<close>, the last step of \<open>np.corrcoef\<close>: NaN stays NaN.\<close>

fun np_clip :: "float64 \<Rightarrow> real \<Rightarrow> real \<Rightarrow> float64" where
  "np_clip (Finite c) lo hi = Finite (min hi (max lo c))"
| "np_clip PosInf lo hi = Finite hi"
| "np_clip NegInf lo hi = Finite lo"
| "np_clip NaN lo hi = NaN"

text \<open>What \<open>np.corrcoef(a, b)[0, 1]\<close> holds before the clipping: the covariance of the
  two columns divided by the two standard deviations, each step rounded to float64.
  The rounding decides the value and even whether a variance is zero, so the quotient
  is a parameter.\<close>

type_synonym float_quotient = "real list \<Rightarrow> real list \<Rightarrow> float64"

text \<open>Line 535: \<open>df['NO2'].corr(df['T21'])\<close>, on columns without missing values.\<close>

definition correlation :: "float_quotient \<Rightarrow> dataframe \<Rightarrow> float64" where
  "correlation fq df = np_clip (fq (map NO2 df) (map T21 df)) (-1) 1"

text \<open>The float64 values of the literals \<open>0.3\<close> and \<open>0.7\<close>.\<close>

definition float_0_3 :: real where
  "float_0_3 = 5404319552844595 / 2 ^ 54"

definition float_0_7 :: real where
  "float_0_7 = 3152519739159347 / 2 ^ 52"

text \<open>Lines 603-617. A comparison with NaN is false, so NaN falls to the last branch, as
  an infinity does.\<close>

fun interpretation_of :: "float64 \<Rightarrow> correlation_label" where
  "interpretation_of (Finite c) =
     (if \<bar>c\<bar> < float_0_3 then Correlacion_Debil
      else if \<bar>c\<bar> < float_0_7 then Correlacion_Moderada
      else Correlacion_Fuerte)"
| "interpretation_of PosInf = Correlacion_Fuerte"
| "interpretation_of NegInf = Correlacion_Fuerte"
| "interpretation_of NaN = Correlacion_Fuerte"

text \<open>An instance of the parameter: the quotient in exact arithmetic, with NaN for the
  0/0 of a single row or of a column without variance. Float64 rounds where this does
  not, so the two can differ; they agree where the deviations of a column are exactly
  zero, as on the two-row table with equal T21 values used below.\<close>

definition mean :: "real list \<Rightarrow> real" where
  "mean xs = sum_list xs / real (length xs)"

definition dot :: "real list \<Rightarrow> real list \<Rightarrow> real" where
  "dot xs ys = sum_list (map2 (*) xs ys)"

definition demean :: "real list \<Rightarrow> real list" where
  "demean xs = map (\<lambda>x. x - mean xs) xs"

definition cov :: "real list \<Rightarrow> real list \<Rightarrow> real" where
  "cov xs ys = dot (demean xs) (demean ys) / (real (length xs) - 1)"

definition pearson :: "real list \<Rightarrow> real list \<Rightarrow> real" where
  "pearson xs ys = cov xs ys / sqrt (cov xs xs) / sqrt (cov ys ys)"

definition exact_quotient :: float_quotient where
  "exact_quotient xs ys =
     (if length xs < 2 \<or> cov xs xs = 0 \<or> cov ys ys = 0 then NaN
      else Finite (pearson xs ys))"

text \<open>The tab. The trend line of the scatter plot is fitted over the NO2 column (line
  566) before the chart and the two boxes are put on the page.\<close>

definition correlation_tab :: "dataframe \<Rightarrow> rendering" where
  "correlation_tab df =
     then_render (shows_only [Subheader ''Analisis de Correlacion''])
       (if polyfit_fails (map NO2 df) then ([], Raised LinAlgError)
        else
          shows_only [Plotly_chart Dispersion,
                      Markdown (Coeficiente_de_correlacion (map NO2 df) (map T21 df)),
                      Markdown Salto_de_linea,
                      Interpretacion (map NO2 df) (map T21 df),
                      Markdown Salto_de_linea,
                      Markdown Interpretacion_texto])"

subsection \<open>Tab 4, footer and the whole page\<close>

text \<open>The static text of the information tab is one element.\<close>

definition info_tab :: rendering where
  "info_tab = shows_only [Markdown Acerca_de]"

definition footer :: rendering where
  "footer = shows_only [Markdown Separador, Markdown Footer]"

text \<open>\<open>st.tabs\<close> draws the tab bar; the four tab bodies then run one after the other,
  whichever tab is in front.\<close>

definition tabs_bar :: rendering where
  "tabs_bar = shows_only [Widget Pestanas]"

definition dashboard :: "resampler \<Rightarrow> filesystem \<Rightarrow> widgets \<Rightarrow> dataframe \<Rightarrow> rendering" where
  "dashboard LANCZOS fs w df =
     then_render header_block
       (then_render (controls_block df w)
          (then_render tabs_bar
             (then_render (map_tab LANCZOS fs w)
                (then_render (series_tab df)
                   (then_render (correlation_tab df)
                      (then_render info_tab footer))))))"

text \<open>The script from its first line: theme selector, \<open>load_data()\<close>, then either the
  error branch with \<open>st.stop()\<close> or the dashboard.\<close>

definition page ::
  "resampler \<Rightarrow> filesystem \<Rightarrow> widgets \<Rightarrow> loaded option \<Rightarrow> rendering \<times> loaded option" where
  "page LANCZOS fs w cache =
     (case load_data_cached cache fs of
        (Inl e, cache') \<Rightarrow> (then_render (theme_block w) ([], Raised e), cache')
      | (Inr (df, metadata, error), cache') \<Rightarrow>
          (then_render (theme_block w)
             (case error of
                Some msg \<Rightarrow> error_block msg
              | None \<Rightarrow>
                  (case df of
                     None \<Rightarrow> ([], Raised OtherError)
                   | Some df' \<Rightarrow> dashboard LANCZOS fs w df')),
           cache'))"

subsection \<open>Example inputs\<close>

text \<open>A two-month table, widget values and a data directory in which only the NO2
  raster of February exists.\<close>

definition example_df :: dataframe where
  "example_df =
     [\<lparr>Fecha = (2024, 1, 1), NO2 = 2, T21 = 300\<rparr>,
      \<lparr>Fecha = (2024, 2, 1), NO2 = 3, T21 = 310\<rparr>]"

definition example_widgets :: "string \<Rightarrow> view_mode \<Rightarrow> widgets" where
  "example_widgets month mode =
     \<lparr>theme_selector = Claro, selected_month = month, view_mode_w = mode,
      opacity_no2_w = 1, opacity_t21_w = 1 / 2, blend_mode_w = Normal,
      layer_choice_w = Capa_NO2\<rparr>"

definition example_fs :: "dataframe disk_file \<Rightarrow> string disk_file \<Rightarrow> filesystem" where
  "example_fs csv metadata =
     \<lparr>datos_no2_t21_csv = csv, metadata_json = metadata, monthly_images_exists = True,
      png_files = (\<lambda>name. if name = ''no2_2024-02.png''
                           then Some \<lparr>im_size = (1, 1), im_data = [(10, 20, 30, 255)]\<rparr>
                           else None)\<rparr>"

definition example_store :: store where
  "example_store = \<lparr>objects = (\<lambda>a. None)(0 := Some (to_frame example_df)), next_addr = 1\<rparr>"

text \<open>Two-month tables with chosen values: \<open>two_months a b c d\<close> has NO2 = a, T21 = b in
  January and NO2 = c, T21 = d in February.\<close>

definition two_months :: "real \<Rightarrow> real \<Rightarrow> real \<Rightarrow> real \<Rightarrow> dataframe" where
  "two_months a b c d =
     [\<lparr>Fecha = (2024, 1, 1), NO2 = a, T21 = b\<rparr>,
      \<lparr>Fecha = (2024, 2, 1), NO2 = c, T21 = d\<rparr>]"

subsection \<open>Facts about the image operations\<close>

lemma wf_Image_new: "wf_image (Image_new sz c)"
  by (simp add: wf_image_def Image_new_def)

lemma length_resize_rows:
  "length (concat (map (\<lambda>y. map (f y) [0..<w]) ys)) = w * length ys"
  by (induction ys) simp_all

lemma wf_resize: "wf_image (resize flt im sz)"
  by (simp add: wf_image_def resize_def length_resize_rows)

lemma wf_putalpha: "wf_image (putalpha im v) = wf_image im"
  by (simp add: wf_image_def putalpha_def)

lemma im_size_putalpha: "im_size (putalpha im v) = im_size im"
  by (simp add: putalpha_def)

lemma im_size_ensure: "im_size (ensure_same_size flt img_no2 img_t21) = im_size img_no2"
  by (simp add: ensure_same_size_def resize_def)

lemma wf_ensure: "wf_image img_t21 \<Longrightarrow> wf_image (ensure_same_size flt img_no2 img_t21)"
  by (simp add: ensure_same_size_def wf_resize)

lemma shift_opaque:
  assumes "c < 256" shows "SHIFTFORDIV255 (c * 32640 + 16384) div 128 = c"
proof -
  have e: "c * 32640 + 16384 = 256 * (127 * c + 64) + 128 * c" by simp
  have d: "(c * 32640 + 16384) div 256 = 127 * c + 64 + c div 2"
    unfolding e by (simp add: div_mult2_eq)
  define k where "k = 16448 + c div 2 - c"
  have k: "16448 + c div 2 = c + k" "k < 32768" using assms unfolding k_def by arith+
  have "127 * c + 64 + c div 2 + (c * 32640 + 16384) = 32768 * c + k"
    using k(1) by simp
  then have "(127 * c + 64 + c div 2 + (c * 32640 + 16384)) div 32768 = c"
    using k(2) by simp
  then show ?thesis
    unfolding SHIFTFORDIV255_def d by (simp add: div_mult2_eq)
qed

lemma unat_u8_less: "unat (c :: u8) < 256"
  using unsigned_less [of c, where ?'a = nat] by simp

lemma coef1_opaque: "coef1_of da 255 = 32640"
  by (simp add: coef1_of_def PRECISION_BITS_def)

lemma blend_opaque: "blend_channel da 255 dc sc = sc"
proof -
  have "SHIFTFORDIV255 (unat sc * 32640 + 16384) div 128 = unat sc"
    using unat_u8_less by (rule shift_opaque)
  then show ?thesis
    by (simp add: blend_channel_def coef1_opaque PRECISION_BITS_def)
qed

text \<open>An opaque source pixel replaces the destination pixel.\<close>

lemma composite_opaque: "composite_pixel d (sr, sg, sb, 255) = (sr, sg, sb, 255)"
  by (cases d) (simp add: blend_opaque SHIFTFORDIV255_def)

lemma composite_transparent: "composite_pixel d (sr, sg, sb, 0) = d"
  by (cases d) simp

lemma CLIP8_255: "CLIP8 255 = 255"
  by (simp add: CLIP8_def)

lemma CLIP8_0: "CLIP8 0 = 0"
  by (simp add: CLIP8_def)

lemma py_int_255: "py_int (255 * 1) = 255"
  by (simp add: py_int_def)

lemma py_int_0: "py_int (255 * 0) = 0"
  by (simp add: py_int_def)

lemma coef1_le: assumes "sa \<noteq> 0" shows "coef1_of da sa \<le> 32640"
proof -
  have pos: "0 < unat sa" using assms by (simp add: unat_gt_0)
  let ?d = "unat sa * 255 + unat da * (255 - unat sa)"
  have "unat sa * 255 * 255 * 2 ^ PRECISION_BITS = 32640 * (unat sa * 255)"
    by (simp add: PRECISION_BITS_def)
  also have "\<dots> \<le> 32640 * ?d" by simp
  finally have "unat sa * 255 * 255 * 2 ^ PRECISION_BITS div ?d \<le> 32640 * ?d div ?d"
    by (rule div_le_mono)
  also have "\<dots> = 32640"
  proof -
    have dpos: "0 < ?d" using pos by simp
    show ?thesis by (rule div_mult_self_is_m [OF dpos])
  qed
  finally show ?thesis by (simp add: coef1_of_def)
qed

lemma composite_no_overflow:
  assumes "sa \<noteq> 0"
  shows "unat sa * 255 * 255 * 2 ^ PRECISION_BITS < 2 ^ 32"
    and "unat (sc :: u8) * coef1_of da sa + unat (dc :: u8) * (255 * 2 ^ PRECISION_BITS - coef1_of da sa)
           + 128 * 2 ^ PRECISION_BITS < 2 ^ 32"
proof -
  note a = unat_u8_less [of sa] unat_u8_less [of sc] unat_u8_less [of dc]
  show "unat sa * 255 * 255 * 2 ^ PRECISION_BITS < 2 ^ 32"
    using a(1) by (simp add: PRECISION_BITS_def)
  have c: "coef1_of da sa \<le> 32640" using assms by (rule coef1_le)
  have "unat sc * coef1_of da sa \<le> 255 * 32640"
    using a(2) c by (intro mult_le_mono) simp_all
  moreover have "unat dc * (255 * 2 ^ PRECISION_BITS - coef1_of da sa) \<le> 255 * 32640"
    using a(3) by (intro mult_le_mono) (simp_all add: PRECISION_BITS_def)
  ultimately show "unat sc * coef1_of da sa + unat dc * (255 * 2 ^ PRECISION_BITS - coef1_of da sa)
           + 128 * 2 ^ PRECISION_BITS < 2 ^ 32"
    by (simp add: PRECISION_BITS_def)
qed

lemma with_alpha_opaque: "composite_pixel d (with_alpha 255 p) = with_alpha 255 p"
  by (cases p) (simp add: composite_opaque del: composite_pixel.simps)

lemma with_alpha_transparent: "composite_pixel d (with_alpha 0 p) = d"
  by (cases p) (simp add: composite_transparent del: composite_pixel.simps)

lemma map2_opaque:
  "length ds = length xs \<Longrightarrow>
   map2 composite_pixel ds (map (with_alpha 255) xs) = map (with_alpha 255) xs"
  by (induction ds xs rule: list_induct2) (simp_all add: with_alpha_opaque)

lemma map2_transparent:
  "length ds = length xs \<Longrightarrow> map2 composite_pixel ds (map (with_alpha 0) xs) = ds"
  by (induction ds xs rule: list_induct2) (simp_all add: with_alpha_transparent)

lemma with_alpha_id: "alpha_of p = v \<Longrightarrow> with_alpha v p = p"
  by (cases p) simp

lemma putalpha_id: "\<forall>p\<in>set (im_data im). alpha_of p = v' \<Longrightarrow> CLIP8 v = v' \<Longrightarrow> putalpha im v = im"
  by (simp add: putalpha_def map_idI with_alpha_id)

lemma overlay_1_0:
  assumes "wf_image img_no2" "wf_image img_t21"
  shows "overlay flt 1 0 bm img_no2 img_t21 = Inr (putalpha img_no2 255)"
proof -
  let ?t = "ensure_same_size flt img_no2 img_t21"
  have wt: "length (im_data ?t) = length (im_data img_no2)"
    using wf_ensure [OF assms(2), of flt img_no2] assms(1)
    by (simp add: wf_image_def im_size_ensure)
  have 1: "alpha_composite (Image_new (im_size img_no2) (255, 255, 255, 255)) (putalpha img_no2 255)
        = Inr (putalpha img_no2 255)"
    using assms(1)
    by (simp add: alpha_composite_def Image_new_def putalpha_def CLIP8_255 wf_image_def map2_opaque)
  have 2: "alpha_composite (putalpha img_no2 255) (putalpha ?t 0) = Inr (putalpha img_no2 255)"
    using wt
    by (simp add: alpha_composite_def putalpha_def CLIP8_0 CLIP8_255 im_size_ensure map2_transparent)
  show ?thesis
    unfolding overlay_def Let_def using 1 2 by (simp add: py_int_def)
qed

lemma putalpha_fixed:
  "putalpha im 255 = im \<longleftrightarrow> (\<forall>p\<in>set (im_data im). alpha_of p = 255)"
proof -
  have "map (with_alpha 255) (im_data im) = map id (im_data im)
          \<longleftrightarrow> (\<forall>p\<in>set (im_data im). with_alpha 255 p = id p)"
    by (rule map_eq_conv)
  moreover have "\<And>p. with_alpha 255 p = id p \<longleftrightarrow> alpha_of p = 255"
    by (case_tac p) auto
  moreover have "putalpha im 255 = im \<longleftrightarrow> map (with_alpha 255) (im_data im) = im_data im"
    by (cases im) (simp add: putalpha_def CLIP8_255)
  ultimately show ?thesis by simp
qed

text \<open>Claim C1, as amended. With NO2 opacity 1.0 and T21 opacity 0.0 the overlay of two
  same-size RGBA images is the NO2 image with its alpha channel set to 255: the colours
  are unchanged, and the result is the NO2 image itself exactly when that image is fully
  opaque.\<close>

theorem overlay_full_no2_hidden_t21:
  assumes "wf_image img_no2" and "wf_image img_t21" and "im_size img_no2 = im_size img_t21"
  shows "overlay LANCZOS 1 0 blend_mode img_no2 img_t21 = Inr (putalpha img_no2 255)
       \<and> (overlay LANCZOS 1 0 blend_mode img_no2 img_t21 = Inr img_no2
            \<longleftrightarrow> (\<forall>p\<in>set (im_data img_no2). alpha_of p = 255))"
  using overlay_1_0 [OF assms(1,2)] by (simp add: putalpha_fixed)

theorem overlay_full_no2_hidden_t21_witness:
  "wf_image \<lparr>im_size = (2, 1), im_data = [(10, 20, 30, 255), (1, 2, 3, 255)]\<rparr>
   \<and> wf_image \<lparr>im_size = (2, 1), im_data = [(9, 9, 9, 255), (7, 7, 7, 128)]\<rparr>
   \<and> alpha_of (10, 20, 30, 255) = 255 \<and> alpha_of (1, 2, 3, 255) = 255
   \<and> overlay nearest 1 0 Normal
        \<lparr>im_size = (2, 1), im_data = [(10, 20, 30, 255), (1, 2, 3, 255)]\<rparr>
        \<lparr>im_size = (2, 1), im_data = [(9, 9, 9, 255), (7, 7, 7, 128)]\<rparr>
      = Inr \<lparr>im_size = (2, 1), im_data = [(10, 20, 30, 255), (1, 2, 3, 255)]\<rparr>"
  using overlay_full_no2_hidden_t21
    [of "\<lparr>im_size = (2, 1), im_data = [(10, 20, 30, 255), (1, 2, 3, 255)]\<rparr>"
        "\<lparr>im_size = (2, 1), im_data = [(9, 9, 9, 255), (7, 7, 7, 128)]\<rparr>" nearest Normal]
  by (simp add: wf_image_def putalpha_def CLIP8_def)

text \<open>Claim C1 as stated fails on an NO2 image with a transparent pixel: \<open>putalpha\<close>
  makes the pixel opaque before compositing.\<close>

theorem overlay_full_no2_counterexample:
  "overlay nearest 1 0 Normal
        \<lparr>im_size = (1, 1), im_data = [(10, 20, 30, 0)]\<rparr>
        \<lparr>im_size = (1, 1), im_data = [(0, 0, 0, 255)]\<rparr>
      \<noteq> Inr \<lparr>im_size = (1, 1), im_data = [(10, 20, 30, 0)]\<rparr>"
  by (simp add: overlay_def ensure_same_size_def Image_new_def putalpha_def py_int_def CLIP8_def
        alpha_composite_def blend_channel_def coef1_of_def PRECISION_BITS_def SHIFTFORDIV255_def)

text \<open>Claim C8. The overlay does not depend on the blend-mode selection.\<close>

theorem overlay_ignores_blend_mode:
  "overlay LANCZOS opacity_no2 opacity_t21 blend_mode img_no2 img_t21
     = overlay LANCZOS opacity_no2 opacity_t21 blend_mode' img_no2 img_t21"
  by (simp add: overlay_def)

lemma overlay_total:
  assumes "wf_image img_no2" and "wf_image img_t21"
  shows "overlay flt o1 o2 bm img_no2 img_t21 =
     Inr \<lparr>im_size = im_size img_no2,
          im_data = map2 composite_pixel
             (map2 composite_pixel (replicate (length (im_data img_no2)) (255, 255, 255, 255))
                (map (with_alpha (CLIP8 (py_int (255 * o1)))) (im_data img_no2)))
             (map (with_alpha (CLIP8 (py_int (255 * o2))))
                (im_data (ensure_same_size flt img_no2 img_t21)))\<rparr>"
  using assms(1)
  by (simp add: overlay_def Let_def alpha_composite_def Image_new_def putalpha_def
       im_size_ensure wf_image_def)

lemma length_ensure:
  assumes "wf_image img_no2" and "wf_image img_t21"
  shows "length (im_data (ensure_same_size flt img_no2 img_t21)) = length (im_data img_no2)"
  using wf_ensure [OF assms(2), of flt img_no2] assms(1)
  by (simp add: wf_image_def im_size_ensure)

text \<open>Claim C6. The overlay always succeeds on two well-formed rasters, and its result
  has the dimensions of the NO2 raster. When the two sizes differ, the layer composited
  over the NO2 layer is the T21 image resized to the NO2 size; when the sizes match it is
  the T21 image itself, and the resampling filter is never consulted.\<close>

theorem overlay_output_has_no2_size:
  assumes "wf_image img_no2" and "wf_image img_t21"
  shows "\<exists>result. overlay LANCZOS opacity_no2 opacity_t21 blend_mode img_no2 img_t21 = Inr result
      \<and> im_size result = im_size img_no2 \<and> wf_image result
      \<and> (im_size img_no2 \<noteq> im_size img_t21 \<longrightarrow>
            im_size (resize LANCZOS img_t21 (im_size img_no2)) = im_size img_no2
          \<and> im_data result =
              map2 composite_pixel
                (map2 composite_pixel
                   (replicate (fst (im_size img_no2) * snd (im_size img_no2)) (255, 255, 255, 255))
                   (im_data (putalpha img_no2 (py_int (255 * opacity_no2)))))
                (im_data (putalpha (resize LANCZOS img_t21 (im_size img_no2))
                            (py_int (255 * opacity_t21)))))
      \<and> (im_size img_no2 = im_size img_t21 \<longrightarrow>
            im_data result =
              map2 composite_pixel
                (map2 composite_pixel
                   (replicate (fst (im_size img_no2) * snd (im_size img_no2)) (255, 255, 255, 255))
                   (im_data (putalpha img_no2 (py_int (255 * opacity_no2)))))
                (im_data (putalpha img_t21 (py_int (255 * opacity_t21))))
          \<and> (\<forall>flt. overlay flt opacity_no2 opacity_t21 blend_mode img_no2 img_t21 = Inr result))"
proof -
  let ?res = "\<lambda>flt. \<lparr>im_size = im_size img_no2,
          im_data = map2 composite_pixel
             (map2 composite_pixel (replicate (length (im_data img_no2)) (255, 255, 255, 255))
                (map (with_alpha (CLIP8 (py_int (255 * opacity_no2)))) (im_data img_no2)))
             (map (with_alpha (CLIP8 (py_int (255 * opacity_t21))))
                (im_data (ensure_same_size flt img_no2 img_t21)))\<rparr>"
  have ov: "overlay flt opacity_no2 opacity_t21 blend_mode img_no2 img_t21 = Inr (?res flt)" for flt
    by (rule overlay_total [OF assms])
  have len: "length (im_data img_no2) = fst (im_size img_no2) * snd (im_size img_no2)"
    using assms(1) by (simp add: wf_image_def)
  have wf: "wf_image (?res LANCZOS)"
    using assms(1) by (simp add: wf_image_def length_ensure [OF assms])
  have differ: "ensure_same_size LANCZOS img_no2 img_t21 = resize LANCZOS img_t21 (im_size img_no2)"
    if "im_size img_no2 \<noteq> im_size img_t21"
    using that by (simp add: ensure_same_size_def)
  have same: "ensure_same_size flt img_no2 img_t21 = img_t21"
    if "im_size img_no2 = im_size img_t21" for flt
    using that by (simp add: ensure_same_size_def)
  show ?thesis
  proof (intro exI conjI impI)
    show "overlay LANCZOS opacity_no2 opacity_t21 blend_mode img_no2 img_t21 = Inr (?res LANCZOS)"
      by (rule ov)
    show "im_size (?res LANCZOS) = im_size img_no2" by simp
    show "wf_image (?res LANCZOS)" by (rule wf)
    show "im_size (resize LANCZOS img_t21 (im_size img_no2)) = im_size img_no2"
      by (simp add: resize_def)
  next
    assume "im_size img_no2 \<noteq> im_size img_t21"
    then show "im_data (?res LANCZOS) =
              map2 composite_pixel
                (map2 composite_pixel
                   (replicate (fst (im_size img_no2) * snd (im_size img_no2)) (255, 255, 255, 255))
                   (im_data (putalpha img_no2 (py_int (255 * opacity_no2)))))
                (im_data (putalpha (resize LANCZOS img_t21 (im_size img_no2))
                            (py_int (255 * opacity_t21))))"
      by (simp add: differ len putalpha_def)
  next
    assume eq: "im_size img_no2 = im_size img_t21"
    show "im_data (?res LANCZOS) =
              map2 composite_pixel
                (map2 composite_pixel
                   (replicate (fst (im_size img_no2) * snd (im_size img_no2)) (255, 255, 255, 255))
                   (im_data (putalpha img_no2 (py_int (255 * opacity_no2)))))
                (im_data (putalpha img_t21 (py_int (255 * opacity_t21))))"
      by (simp add: same [OF eq] len putalpha_def)
    show "\<forall>flt. overlay flt opacity_no2 opacity_t21 blend_mode img_no2 img_t21 = Inr (?res LANCZOS)"
      by (simp add: ov same [OF eq])
  qed
qed

theorem overlay_output_has_no2_size_witness:
  "wf_image \<lparr>im_size = (1, 1), im_data = [(10, 20, 30, 0)]\<rparr>
   \<and> wf_image \<lparr>im_size = (1, 2), im_data = [(9, 8, 7, 255), (1, 1, 1, 255)]\<rparr>
   \<and> im_size \<lparr>im_size = (1, 1), im_data = [(10, 20, 30, 0)]\<rparr>
        \<noteq> im_size \<lparr>im_size = (1, 2), im_data = [(9, 8, 7, 255), (1, 1, 1, 255)]\<rparr>
   \<and> resize nearest \<lparr>im_size = (1, 2), im_data = [(9, 8, 7, 255), (1, 1, 1, 255)]\<rparr> (1, 1)
       = \<lparr>im_size = (1, 1), im_data = [(9, 8, 7, 255)]\<rparr>
   \<and> overlay nearest 1 0 Normal
        \<lparr>im_size = (1, 1), im_data = [(10, 20, 30, 0)]\<rparr>
        \<lparr>im_size = (1, 2), im_data = [(9, 8, 7, 255), (1, 1, 1, 255)]\<rparr>
       = Inr \<lparr>im_size = (1, 1), im_data = [(10, 20, 30, 255)]\<rparr>
   \<and> overlay nearest 0 1 Normal
        \<lparr>im_size = (1, 1), im_data = [(10, 20, 30, 0)]\<rparr>
        \<lparr>im_size = (1, 2), im_data = [(9, 8, 7, 255), (1, 1, 1, 255)]\<rparr>
       = Inr \<lparr>im_size = (1, 1), im_data = [(9, 8, 7, 255)]\<rparr>
   \<and> wf_image \<lparr>im_size = (1, 1), im_data = [(5, 5, 5, 255)]\<rparr>
   \<and> overlay nearest 0 1 Normal
        \<lparr>im_size = (1, 1), im_data = [(10, 20, 30, 0)]\<rparr>
        \<lparr>im_size = (1, 1), im_data = [(5, 5, 5, 255)]\<rparr>
       = Inr \<lparr>im_size = (1, 1), im_data = [(5, 5, 5, 255)]\<rparr>"
proof -
  let ?no2 = "\<lparr>im_size = (1, 1), im_data = [(10 :: u8, 20 :: u8, 30 :: u8, 0 :: u8)]\<rparr>"
  let ?big = "\<lparr>im_size = (1, 2), im_data = [(9 :: u8, 8 :: u8, 7 :: u8, 255 :: u8), (1, 1, 1, 255)]\<rparr>"
  let ?t21 = "\<lparr>im_size = (1, 1), im_data = [(5 :: u8, 5 :: u8, 5 :: u8, 255 :: u8)]\<rparr>"
  have w: "wf_image ?no2" "wf_image ?big" "wf_image ?t21"
    by (simp_all add: wf_image_def)
  have r: "resize nearest ?big (1, 1) = \<lparr>im_size = (1, 1), im_data = [(9, 8, 7, 255)]\<rparr>"
    by (simp add: resize_def nearest_def)
  have r': "im_data (resize nearest
              \<lparr>im_size = (Suc 0, 2), im_data = [(9, 8, 7, 255), (1, 1, 1, 255)]\<rparr>
              (Suc 0, Suc 0)) = [(9, 8, 7, 255)]"
    by (simp add: resize_def nearest_def)
  have p: "py_int 255 = 255" "py_int 0 = 0"
    by (simp_all add: py_int_def)
  have c: "composite_pixel d (x, y, z, 255) = (x, y, z, 255)"
    "composite_pixel d (x, y, z, 0) = d" for d x y z
    by (rule composite_opaque, rule composite_transparent)
  have a: "overlay nearest 1 0 Normal ?no2 ?big
       = Inr \<lparr>im_size = (1, 1), im_data = [(10, 20, 30, 255)]\<rparr>"
  proof -
    from overlay_output_has_no2_size [OF w(1,2), of nearest 1 0 Normal]
    obtain result where ov: "overlay nearest 1 0 Normal ?no2 ?big = Inr result"
      and sz: "im_size result = (1, 1)"
      and dat: "im_data result = [(10, 20, 30, 255)]"
      by (auto simp: r' p c putalpha_def CLIP8_def simp del: composite_pixel.simps)
    from sz dat have "result = \<lparr>im_size = (1, 1), im_data = [(10, 20, 30, 255)]\<rparr>"
      by (cases result) simp
    with ov show ?thesis by simp
  qed
  have b: "overlay nearest 0 1 Normal ?no2 ?big
       = Inr \<lparr>im_size = (1, 1), im_data = [(9, 8, 7, 255)]\<rparr>"
  proof -
    from overlay_output_has_no2_size [OF w(1,2), of nearest 0 1 Normal]
    obtain result where ov: "overlay nearest 0 1 Normal ?no2 ?big = Inr result"
      and sz: "im_size result = (1, 1)"
      and dat: "im_data result = [(9, 8, 7, 255)]"
      by (auto simp: r' p c putalpha_def CLIP8_def simp del: composite_pixel.simps)
    from sz dat have "result = \<lparr>im_size = (1, 1), im_data = [(9, 8, 7, 255)]\<rparr>"
      by (cases result) simp
    with ov show ?thesis by simp
  qed
  have d: "overlay nearest 0 1 Normal ?no2 ?t21
       = Inr \<lparr>im_size = (1, 1), im_data = [(5, 5, 5, 255)]\<rparr>"
  proof -
    from overlay_output_has_no2_size [OF w(1,3), of nearest 0 1 Normal]
    obtain result where ov: "overlay nearest 0 1 Normal ?no2 ?t21 = Inr result"
      and sz: "im_size result = (1, 1)"
      and dat: "im_data result = [(5, 5, 5, 255)]"
      by (auto simp: p c putalpha_def CLIP8_def simp del: composite_pixel.simps)
    from sz dat have "result = \<lparr>im_size = (1, 1), im_data = [(5, 5, 5, 255)]\<rparr>"
      by (cases result) simp
    with ov show ?thesis by simp
  qed
  show ?thesis using w r a b d by simp
qed

lemma CLIP8_in_range: "0 \<le> v \<Longrightarrow> v \<le> 255 \<Longrightarrow> CLIP8 v = word_of_int v"
  by (auto simp: CLIP8_def)

lemma py_int_opacity:
  assumes "0 \<le> x" and "x \<le> 1"
  shows "0 \<le> py_int (255 * x)" and "py_int (255 * x) \<le> 255"
proof -
  have "0 \<le> 255 * x" using assms(1) by simp
  then show "0 \<le> py_int (255 * x)" by (simp add: py_int_def)
  have "255 * x \<le> 255" using assms(2) by simp
  then have "\<lfloor>255 * x\<rfloor> \<le> 255" by (simp add: floor_le_iff)
  then show "py_int (255 * x) \<le> 255" using \<open>0 \<le> 255 * x\<close> by (simp add: py_int_def)
qed

lemma with_alpha_rgb: "rgb_of p = rgb_of p' \<Longrightarrow> with_alpha v p = with_alpha v p'"
  by (cases p; cases p') simp

lemma map_with_alpha_rgb:
  "map rgb_of xs = map rgb_of ys \<Longrightarrow> map (with_alpha v) xs = map (with_alpha v) ys"
proof (induction xs arbitrary: ys)
  case Nil
  then show ?case by simp
next
  case (Cons x xs)
  then obtain y ys' where ys: "ys = y # ys'" by (cases ys) auto
  with Cons show ?case by (simp add: with_alpha_rgb [of x y])
qed

lemma overlay_rgb_only:
  assumes "im_size img_no2' = im_size img_no2"
    and "map rgb_of (im_data img_no2') = map rgb_of (im_data img_no2)"
  shows "overlay flt o1 o2 bm img_no2' img_t21 = overlay flt o1 o2 bm img_no2 img_t21"
proof -
  have "putalpha img_no2' v = putalpha img_no2 v" for v
    using assms map_with_alpha_rgb [OF assms(2)]
    by (cases img_no2'; cases img_no2) (simp add: putalpha_def)
  moreover have "ensure_same_size flt img_no2' img_t21 = ensure_same_size flt img_no2 img_t21"
    using assms(1) by (simp add: ensure_same_size_def)
  ultimately show ?thesis
    using assms(1) by (simp add: overlay_def)
qed

text \<open>Claim C10. For opacities in [0, 1] the overlay succeeds, and each of its pixels is
  the T21 pixel with alpha \<open>int(255 * opacity_t21)\<close> composited over the NO2 pixel with
  alpha \<open>int(255 * opacity_no2)\<close> composited over opaque white. The alpha channel of
  the NO2 file plays no part: any image with the same size and colours gives the same
  result.\<close>

theorem overlay_uniform_alpha_layers:
  assumes "wf_image img_no2" and "wf_image img_t21"
    and "0 \<le> opacity_no2" and "opacity_no2 \<le> 1" and "0 \<le> opacity_t21" and "opacity_t21 \<le> 1"
  shows "\<exists>result. overlay LANCZOS opacity_no2 opacity_t21 blend_mode img_no2 img_t21 = Inr result
      \<and> im_size result = im_size img_no2
      \<and> length (im_data result) = length (im_data img_no2)
      \<and> (\<forall>i < length (im_data img_no2). im_data result ! i =
            composite_pixel
              (composite_pixel (255, 255, 255, 255)
                 (with_alpha (word_of_int (py_int (255 * opacity_no2))) (im_data img_no2 ! i)))
              (with_alpha (word_of_int (py_int (255 * opacity_t21)))
                 (im_data (ensure_same_size LANCZOS img_no2 img_t21) ! i)))
      \<and> (\<forall>img_no2'. im_size img_no2' = im_size img_no2
              \<and> map rgb_of (im_data img_no2') = map rgb_of (im_data img_no2) \<longrightarrow>
            overlay LANCZOS opacity_no2 opacity_t21 blend_mode img_no2' img_t21 = Inr result)"
proof -
  note c1 = CLIP8_in_range [OF py_int_opacity [OF assms(3,4)]]
  note c2 = CLIP8_in_range [OF py_int_opacity [OF assms(5,6)]]
  note len = length_ensure [OF assms(1,2), of LANCZOS]
  show ?thesis
    by (simp add: overlay_rgb_only overlay_total [OF assms(1,2)] c1 c2 len)
qed

theorem overlay_uniform_alpha_layers_witness:
  "wf_image \<lparr>im_size = (1, 1), im_data = [(10, 20, 30, 0)]\<rparr>
   \<and> wf_image \<lparr>im_size = (1, 1), im_data = [(200, 100, 0, 7)]\<rparr>
   \<and> (0 :: real) \<le> 1 \<and> (0 :: real) \<le> 1 / 2 \<and> (1 :: real) / 2 \<le> 1
   \<and> (\<exists>result. overlay nearest 1 (1 / 2) Normal
          \<lparr>im_size = (1, 1), im_data = [(10, 20, 30, 0)]\<rparr>
          \<lparr>im_size = (1, 1), im_data = [(200, 100, 0, 7)]\<rparr> = Inr result
        \<and> im_data result ! 0 =
            composite_pixel (composite_pixel (255, 255, 255, 255) (10, 20, 30, 255))
              (200, 100, 0, 127)
        \<and> overlay nearest 1 (1 / 2) Normal
          \<lparr>im_size = (1, 1), im_data = [(10, 20, 30, 99)]\<rparr>
          \<lparr>im_size = (1, 1), im_data = [(200, 100, 0, 7)]\<rparr> = Inr result)"
proof -
  let ?no2 = "\<lparr>im_size = (1, 1), im_data = [(10, 20, 30, 0)]\<rparr>"
  let ?no2' = "\<lparr>im_size = (1, 1), im_data = [(10, 20, 30, 99)]\<rparr>"
  let ?t21 = "\<lparr>im_size = (1, 1), im_data = [(200, 100, 0, 7)]\<rparr>"
  have h: "wf_image ?no2" "wf_image ?t21" "(0 :: real) \<le> 1" "(1 :: real) \<le> 1"
    "(0 :: real) \<le> 1 / 2" "(1 :: real) / 2 \<le> 1"
    by (simp_all add: wf_image_def)
  have p: "py_int (255 / 2) = 127" "py_int 255 = 255"
    by (simp_all add: py_int_def)
  from overlay_uniform_alpha_layers [OF h, of nearest Normal]
  obtain result where r: "overlay nearest 1 (1 / 2) Normal ?no2 ?t21 = Inr result"
    and px: "\<forall>i < length (im_data ?no2). im_data result ! i =
            composite_pixel
              (composite_pixel (255, 255, 255, 255)
                 (with_alpha (word_of_int (py_int (255 * 1))) (im_data ?no2 ! i)))
              (with_alpha (word_of_int (py_int (255 * (1 / 2))))
                 (im_data (ensure_same_size nearest ?no2 ?t21) ! i))"
    and inv: "\<forall>img_no2'. im_size img_no2' = im_size ?no2
              \<and> map rgb_of (im_data img_no2') = map rgb_of (im_data ?no2) \<longrightarrow>
            overlay nearest 1 (1 / 2) Normal img_no2' ?t21 = Inr result"
    by blast
  from px have "im_data result ! 0 =
            composite_pixel (composite_pixel (255, 255, 255, 255) (10, 20, 30, 255))
              (200, 100, 0, 127)"
    by (simp add: p ensure_same_size_def del: composite_pixel.simps)
  moreover from inv have "overlay nearest 1 (1 / 2) Normal ?no2' ?t21 = Inr result"
    by simp
  ultimately show ?thesis using r h by blast
qed

subsection \<open>Loading, month selection and metrics\<close>

lemma load_data_absent:
  assumes "datos_no2_t21_csv fs = Absent
           \<or> (datos_no2_t21_csv fs \<noteq> Unreadable \<and> metadata_json fs = Absent)"
  shows "load_data fs = Inr (None, None, Some Archivos_no_encontrados)"
  using assms by (auto simp: load_data_def split: disk_file.splits)

text \<open>Claim C4, as amended. On a run on which nothing is cached, so that \<open>load_data\<close>
  is executed: when the CSV file is absent, or the CSV is read and the metadata file is
  absent, \<open>load_data\<close> returns \<open>(None, None, message)\<close>, and the page is the theme
  selector followed by the error, the hint and the code sample only; the run ends at
  \<open>st.stop()\<close>, so no metric, map or chart is rendered.\<close>

theorem missing_files_halt_the_page:
  assumes "datos_no2_t21_csv fs = Absent
           \<or> (datos_no2_t21_csv fs \<noteq> Unreadable \<and> metadata_json fs = Absent)"
  shows "load_data fs = Inr (None, None, Some Archivos_no_encontrados)
       \<and> fst (page LANCZOS fs w None) =
           ([Widget Tema, Style (theme_selector w),
             St_error Archivos_no_encontrados, St_info Autenticar_Earth_Engine, St_code],
            Stopped)"
  using load_data_absent [OF assms]
  by (simp add: page_def load_data_cached_def theme_block_def error_block_def
        then_render_def shows_only_def)

lemma set_available_months:
  "set (available_months df) = (\<lambda>r. strftime_Ym (Fecha r)) ` set df"
  by (simp add: available_months_def unique_def)

lemma first_match:
  "filter (\<lambda>(i, r). Q r) (zip [k..<k + length xs] xs) = (i, r) # rest \<Longrightarrow>
     k \<le> i \<and> i < k + length xs \<and> xs ! (i - k) = r \<and> Q r \<and> (\<forall>j<i - k. \<not> Q (xs ! j))"
proof (induction xs arbitrary: k)
  case Nil
  then show ?case by simp
next
  case (Cons x xs)
  have "k < k + length (x # xs)" by simp
  then have "[k..<k + length (x # xs)] = k # [Suc k..<k + length (x # xs)]"
    by (rule upt_conv_Cons)
  then have upt: "[k..<k + length (x # xs)] = k # [Suc k..<Suc k + length xs]"
    by simp
  show ?case
  proof (cases "Q x")
    case True
    with Cons.prems upt show ?thesis by simp
  next
    case False
    with Cons.prems upt
    have "filter (\<lambda>(i, r). Q r) (zip [Suc k..<Suc k + length xs] xs) = (i, r) # rest"
      by simp
    from Cons.IH [OF this]
    have ih: "Suc k \<le> i" "i < Suc k + length xs" "xs ! (i - Suc k) = r" "Q r"
      "\<forall>j<i - Suc k. \<not> Q (xs ! j)" by simp_all
    from ih(1) obtain d where d: "i - k = Suc d" "i - Suc k = d"
      by (metis Suc_diff_Suc Suc_le_lessD diff_Suc_eq_diff_pred diff_Suc_1)
    have "\<forall>j<i - k. \<not> Q ((x # xs) ! j)"
    proof (intro allI impI)
      fix j assume "j < i - k"
      then show "\<not> Q ((x # xs) ! j)"
        using False ih(5) d by (cases j) simp_all
    qed
    then show ?thesis using ih d by simp
  qed
qed

lemma rows_of_month_first:
  assumes "rows_of_month df month = (i, r) # rest"
  shows "i < length df" and "df ! i = r" and "strftime_Ym (Fecha r) = month"
    and "\<forall>j<i. strftime_Ym (Fecha (df ! j)) \<noteq> month"
  using first_match [of "\<lambda>r. strftime_Ym (Fecha r) = month" 0 df i r rest] assms
  by (simp_all add: rows_of_month_def)

lemma rows_of_month_nonempty:
  assumes "month \<in> set (available_months df)"
  shows "rows_of_month df month \<noteq> []"
proof -
  from assms obtain r where r: "r \<in> set df" "strftime_Ym (Fecha r) = month"
    by (auto simp: set_available_months)
  then obtain i where i: "i < length df" "df ! i = r"
    by (auto simp: in_set_conv_nth)
  then have "(i, r) \<in> set (zip [0..<length df] df)"
    by (auto simp: set_zip intro!: exI [of _ i])
  with r(2) have "(i, r) \<in> set (rows_of_month df month)"
    by (simp add: rows_of_month_def)
  then show ?thesis by auto
qed

text \<open>Claim C5. For a month offered by the selector, the metric panel shows the NO2 and
  T21 values of the first row of the table whose date formats to that month, formatted
  with \<open>.2e\<close> and \<open>.1f\<close> and not changed otherwise.\<close>

theorem metric_panel_shows_selected_row:
  assumes "selected_month w \<in> set (available_months df)"
  shows "\<exists>i < length df.
      strftime_Ym (Fecha (df ! i)) = selected_month w
    \<and> (\<forall>j<i. strftime_Ym (Fecha (df ! j)) \<noteq> selected_month w)
    \<and> controls_block df w =
        ([Widget (Mes (available_months df)),
          Metric Metric_NO2 (FText ''.2e'' (Finite (NO2 (df ! i))) '' mol/m2'') None,
          Metric Metric_T21 (FText ''.1f'' (Finite (T21 (df ! i))) '' K'') None]
         @ delta_metrics df i (df ! i) @ [St_info Usa_las_pestanas], Completed)"
proof -
  from rows_of_month_nonempty [OF assms]
  obtain i r rest where rows: "rows_of_month df (selected_month w) = (i, r) # rest"
    by (cases "rows_of_month df (selected_month w)") auto
  note f = rows_of_month_first [OF rows]
  have "controls_block df w =
        ([Widget (Mes (available_months df)),
          Metric Metric_NO2 (FText ''.2e'' (Finite (NO2 (df ! i))) '' mol/m2'') None,
          Metric Metric_T21 (FText ''.1f'' (Finite (T21 (df ! i))) '' K'') None]
         @ delta_metrics df i (df ! i) @ [St_info Usa_las_pestanas], Completed)"
    using rows f(2) by (simp add: controls_block_def shows_only_def)
  with f show ?thesis by blast
qed

text \<open>Claim C3. For a month of the selector whose first row is not the first row of the
  table, the controls show the two delta metrics, and the NO2 delta is the float
  (current - previous) / previous * 100 taken with the previous row of the table: that
  number when the previous value is not zero, and an infinity or NaN (no number) when
  it is zero. When the selected row is the first row of the table, or the table has at
  most one row, the controls show no delta metric.\<close>

theorem month_over_month_delta:
  assumes "selected_month w \<in> set (available_months df)"
  shows "\<exists>i < length df.
      strftime_Ym (Fecha (df ! i)) = selected_month w
    \<and> (\<forall>j<i. strftime_Ym (Fecha (df ! j)) \<noteq> selected_month w)
    \<and> (0 < i \<longrightarrow>
        (let prev = df ! (i - 1);
             delta_no2 = multiply (true_divide (NO2 (df ! i) - NO2 prev) (NO2 prev)) 100
         in controls_block df w =
              ([Widget (Mes (available_months df)),
                Metric Metric_NO2 (FText ''.2e'' (Finite (NO2 (df ! i))) '' mol/m2'') None,
                Metric Metric_T21 (FText ''.1f'' (Finite (T21 (df ! i))) '' K'') None,
                Metric Delta_NO2 (FText ''+.1f'' delta_no2 ''%'')
                  (Some (FText ''+.1f'' delta_no2 ''%'')),
                Metric Delta_T21 (FText ''+.1f'' (Finite (T21 (df ! i) - T21 prev)) '' K'')
                  (Some (FText ''+.1f'' (Finite (T21 (df ! i) - T21 prev)) '' K'')),
                St_info Usa_las_pestanas], Completed)
            \<and> (NO2 prev \<noteq> 0 \<longrightarrow>
                 delta_no2 = Finite ((NO2 (df ! i) - NO2 prev) / NO2 prev * 100))
            \<and> (NO2 prev = 0 \<longrightarrow> (\<forall>x. delta_no2 \<noteq> Finite x))))
    \<and> (i = 0 \<or> length df \<le> 1 \<longrightarrow>
        controls_block df w =
          ([Widget (Mes (available_months df)),
            Metric Metric_NO2 (FText ''.2e'' (Finite (NO2 (df ! i))) '' mol/m2'') None,
            Metric Metric_T21 (FText ''.1f'' (Finite (T21 (df ! i))) '' K'') None,
            St_info Usa_las_pestanas], Completed))"
proof -
  from rows_of_month_nonempty [OF assms]
  obtain i r rest where rows: "rows_of_month df (selected_month w) = (i, r) # rest"
    by (cases "rows_of_month df (selected_month w)") auto
  note f = rows_of_month_first [OF rows]
  have idx: "0 < i \<Longrightarrow> 1 < length df" using f(1) by simp
  have first: "controls_block df w =
          ([Widget (Mes (available_months df)),
            Metric Metric_NO2 (FText ''.2e'' (Finite (NO2 (df ! i))) '' mol/m2'') None,
            Metric Metric_T21 (FText ''.1f'' (Finite (T21 (df ! i))) '' K'') None,
            St_info Usa_las_pestanas], Completed)"
    if "i = 0 \<or> length df \<le> 1"
    using that rows f(1,2)
    by (auto simp: controls_block_def delta_metrics_def shows_only_def)
  have later: "controls_block df w =
              ([Widget (Mes (available_months df)),
                Metric Metric_NO2 (FText ''.2e'' (Finite (NO2 (df ! i))) '' mol/m2'') None,
                Metric Metric_T21 (FText ''.1f'' (Finite (T21 (df ! i))) '' K'') None,
                Metric Delta_NO2
                  (FText ''+.1f'' (multiply (true_divide (NO2 (df ! i) - NO2 (df ! (i - 1)))
                                     (NO2 (df ! (i - 1)))) 100) ''%'')
                  (Some (FText ''+.1f'' (multiply (true_divide (NO2 (df ! i) - NO2 (df ! (i - 1)))
                                     (NO2 (df ! (i - 1)))) 100) ''%'')),
                Metric Delta_T21 (FText ''+.1f'' (Finite (T21 (df ! i) - T21 (df ! (i - 1)))) '' K'')
                  (Some (FText ''+.1f'' (Finite (T21 (df ! i) - T21 (df ! (i - 1)))) '' K'')),
                St_info Usa_las_pestanas], Completed)"
    if "0 < i"
    using that idx rows f(2)
    by (simp add: controls_block_def delta_metrics_def shows_only_def Let_def)
  have fin: "multiply (true_divide x y) 100 = Finite (x / y * 100)" if "y \<noteq> 0" for x y :: real
    using that by (simp add: true_divide_def)
  have inf: "multiply (true_divide x 0) 100 \<noteq> Finite z" for x z :: real
    by (simp add: true_divide_def)
  have at_i: "strftime_Ym (Fecha (df ! i)) = selected_month w"
    using f(2,3) by simp
  show ?thesis
    using f(1,4) at_i first later fin inf
    by (intro exI [of _ i]) (simp add: Let_def)
qed

lemma months_example: "available_months example_df = [''2024-01'', ''2024-02'']"
  by (simp add: available_months_def unique_def example_df_def digit_char_def)

lemma rows_feb: "rows_of_month example_df ''2024-02'' = [(1, \<lparr>Fecha = (2024, 2, 1), NO2 = 3, T21 = 310\<rparr>)]"
  by (simp add: rows_of_month_def example_df_def digit_char_def upt_rec)

lemma rows_jan: "rows_of_month example_df ''2024-01'' = [(0, \<lparr>Fecha = (2024, 1, 1), NO2 = 2, T21 = 300\<rparr>)]"
  by (simp add: rows_of_month_def example_df_def digit_char_def upt_rec)

theorem missing_files_halt_the_page_witness:
  "datos_no2_t21_csv (example_fs Absent (Content ''{}'')) = Absent
   \<and> fst (page nearest (example_fs Absent (Content ''{}''))
             (example_widgets ''2024-02'' Comparacion_lado_a_lado) None) =
       ([Widget Tema, Style Claro,
         St_error Archivos_no_encontrados, St_info Autenticar_Earth_Engine, St_code], Stopped)
   \<and> datos_no2_t21_csv (example_fs (Content example_df) Absent) \<noteq> Unreadable
   \<and> metadata_json (example_fs (Content example_df) Absent) = Absent
   \<and> fst (page nearest (example_fs (Content example_df) Absent)
             (example_widgets ''2024-02'' Comparacion_lado_a_lado) None) =
       ([Widget Tema, Style Claro,
         St_error Archivos_no_encontrados, St_info Autenticar_Earth_Engine, St_code], Stopped)"
  using missing_files_halt_the_page
          [of "example_fs Absent (Content ''{}'')" nearest
              "example_widgets ''2024-02'' Comparacion_lado_a_lado"]
        missing_files_halt_the_page
          [of "example_fs (Content example_df) Absent" nearest
              "example_widgets ''2024-02'' Comparacion_lado_a_lado"]
  by (simp add: example_fs_def example_widgets_def)

theorem metric_panel_shows_selected_row_witness:
  "''2024-02'' \<in> set (available_months example_df)
   \<and> selected_month (example_widgets ''2024-02'' Comparacion_lado_a_lado) = ''2024-02''
   \<and> (\<exists>i < length example_df.
        strftime_Ym (Fecha (example_df ! i)) = ''2024-02''
      \<and> controls_block example_df (example_widgets ''2024-02'' Comparacion_lado_a_lado) =
        ([Widget (Mes (available_months example_df)),
          Metric Metric_NO2 (FText ''.2e'' (Finite (NO2 (example_df ! i))) '' mol/m2'') None,
          Metric Metric_T21 (FText ''.1f'' (Finite (T21 (example_df ! i))) '' K'') None]
         @ delta_metrics example_df i (example_df ! i) @ [St_info Usa_las_pestanas], Completed))
   \<and> NO2 (example_df ! 1) = 3 \<and> T21 (example_df ! 1) = 310
   \<and> strftime_Ym (Fecha (example_df ! 1)) = ''2024-02''"
proof -
  have m: "''2024-02'' \<in> set (available_months example_df)"
    by (simp add: months_example)
  have s: "selected_month (example_widgets ''2024-02'' Comparacion_lado_a_lado) = ''2024-02''"
    by (simp add: example_widgets_def)
  from metric_panel_shows_selected_row
         [of "example_widgets ''2024-02'' Comparacion_lado_a_lado" example_df] m s
  have "\<exists>i < length example_df.
        strftime_Ym (Fecha (example_df ! i)) = ''2024-02''
      \<and> controls_block example_df (example_widgets ''2024-02'' Comparacion_lado_a_lado) =
        ([Widget (Mes (available_months example_df)),
          Metric Metric_NO2 (FText ''.2e'' (Finite (NO2 (example_df ! i))) '' mol/m2'') None,
          Metric Metric_T21 (FText ''.1f'' (Finite (T21 (example_df ! i))) '' K'') None]
         @ delta_metrics example_df i (example_df ! i) @ [St_info Usa_las_pestanas], Completed)"
    by auto
  moreover have "NO2 (example_df ! 1) = 3 \<and> T21 (example_df ! 1) = 310
     \<and> strftime_Ym (Fecha (example_df ! 1)) = ''2024-02''"
    by (simp add: example_df_def digit_char_def)
  ultimately show ?thesis using m s by blast
qed

lemma two_months_example: "example_df = two_months 2 300 3 310"
  by (simp add: example_df_def two_months_def)

lemma two_months_months: "available_months (two_months a b c d) = [''2024-01'', ''2024-02'']"
  by (simp add: available_months_def unique_def two_months_def digit_char_def)

lemma two_months_rows:
  "rows_of_month (two_months a b c d) ''2024-01''
     = [(0, \<lparr>Fecha = (2024, 1, 1), NO2 = a, T21 = b\<rparr>)]"
  "rows_of_month (two_months a b c d) ''2024-02''
     = [(1, \<lparr>Fecha = (2024, 2, 1), NO2 = c, T21 = d\<rparr>)]"
  by (simp_all add: rows_of_month_def two_months_def digit_char_def upt_rec)

theorem month_over_month_delta_witness:
  "selected_month (example_widgets ''2024-02'' Vista_individual)
      \<in> set (available_months (two_months 2 300 3 310))
   \<and> controls_block (two_months 2 300 3 310) (example_widgets ''2024-02'' Vista_individual) =
        ([Widget (Mes [''2024-01'', ''2024-02'']),
          Metric Metric_NO2 (FText ''.2e'' (Finite 3) '' mol/m2'') None,
          Metric Metric_T21 (FText ''.1f'' (Finite 310) '' K'') None,
          Metric Delta_NO2 (FText ''+.1f'' (Finite 50) ''%'')
            (Some (FText ''+.1f'' (Finite 50) ''%'')),
          Metric Delta_T21 (FText ''+.1f'' (Finite 10) '' K'')
            (Some (FText ''+.1f'' (Finite 10) '' K'')),
          St_info Usa_las_pestanas], Completed)
   \<and> controls_block (two_months 0 300 3 310) (example_widgets ''2024-02'' Vista_individual) =
        ([Widget (Mes [''2024-01'', ''2024-02'']),
          Metric Metric_NO2 (FText ''.2e'' (Finite 3) '' mol/m2'') None,
          Metric Metric_T21 (FText ''.1f'' (Finite 310) '' K'') None,
          Metric Delta_NO2 (FText ''+.1f'' PosInf ''%'')
            (Some (FText ''+.1f'' PosInf ''%'')),
          Metric Delta_T21 (FText ''+.1f'' (Finite 10) '' K'')
            (Some (FText ''+.1f'' (Finite 10) '' K'')),
          St_info Usa_las_pestanas], Completed)
   \<and> selected_month (example_widgets ''2024-01'' Vista_individual)
      \<in> set (available_months (two_months 2 300 3 310))
   \<and> controls_block (two_months 2 300 3 310) (example_widgets ''2024-01'' Vista_individual) =
        ([Widget (Mes [''2024-01'', ''2024-02'']),
          Metric Metric_NO2 (FText ''.2e'' (Finite 2) '' mol/m2'') None,
          Metric Metric_T21 (FText ''.1f'' (Finite 300) '' K'') None,
          St_info Usa_las_pestanas], Completed)"
proof -
  let ?df = "two_months 2 300 3 310"
  let ?w = "example_widgets ''2024-01'' Vista_individual"
  have s: "selected_month (example_widgets month mode) = month" for month mode
    by (simp add: example_widgets_def)
  have m: "selected_month ?w \<in> set (available_months ?df)"
    by (simp add: s two_months_months)
  have feb: "strftime_Ym (Fecha (?df ! 1)) \<noteq> ''2024-01''"
    by (simp add: two_months_def digit_char_def)
  from month_over_month_delta [OF m] obtain i where i: "i < length ?df"
    "strftime_Ym (Fecha (?df ! i)) = selected_month ?w"
    and first: "i = 0 \<or> length ?df \<le> 1 \<longrightarrow>
        controls_block ?df ?w =
          ([Widget (Mes (available_months ?df)),
            Metric Metric_NO2 (FText ''.2e'' (Finite (NO2 (?df ! i))) '' mol/m2'') None,
            Metric Metric_T21 (FText ''.1f'' (Finite (T21 (?df ! i))) '' K'') None,
            St_info Usa_las_pestanas], Completed)"
    by blast
  have "i < 2" using i(1) by (simp add: two_months_def)
  then have "i = 0 \<or> i = 1" by auto
  with i(2) feb s have i0: "i = 0" by auto
  from first have jan: "controls_block ?df ?w =
        ([Widget (Mes [''2024-01'', ''2024-02'']),
          Metric Metric_NO2 (FText ''.2e'' (Finite 2) '' mol/m2'') None,
          Metric Metric_T21 (FText ''.1f'' (Finite 300) '' K'') None,
          St_info Usa_las_pestanas], Completed)"
    unfolding i0 by (simp add: two_months_months) (simp add: two_months_def)
  have d: "multiply (true_divide (3 - 2) 2) 100 = Finite 50"
    "multiply (true_divide (3 - 0) 0) 100 = PosInf"
    by (simp_all add: true_divide_def)
  have later_row: "controls_block (two_months a b c d) (example_widgets ''2024-02'' mode) =
       ([Widget (Mes [''2024-01'', ''2024-02'']),
         Metric Metric_NO2 (FText ''.2e'' (Finite c) '' mol/m2'') None,
         Metric Metric_T21 (FText ''.1f'' (Finite d) '' K'') None,
         Metric Delta_NO2 (FText ''+.1f'' (multiply (true_divide (c - a) a) 100) ''%'')
           (Some (FText ''+.1f'' (multiply (true_divide (c - a) a) 100) ''%'')),
         Metric Delta_T21 (FText ''+.1f'' (Finite (d - b)) '' K'')
           (Some (FText ''+.1f'' (Finite (d - b)) '' K'')),
         St_info Usa_las_pestanas], Completed)"
    for a b c d mode
  proof -
    let ?w = "example_widgets ''2024-02'' mode"
    let ?df = "two_months a b c d"
    have s: "selected_month ?w = ''2024-02''" by (simp add: example_widgets_def)
    have m: "selected_month ?w \<in> set (available_months ?df)"
      by (simp add: s two_months_months)
    have jan: "strftime_Ym (Fecha (?df ! 0)) \<noteq> ''2024-02''"
      by (simp add: two_months_def digit_char_def)
    from month_over_month_delta [OF m] obtain i where i: "i < length ?df"
      "strftime_Ym (Fecha (?df ! i)) = selected_month ?w"
      and later: "0 < i \<longrightarrow>
          (let prev = ?df ! (i - 1);
               delta_no2 = multiply (true_divide (NO2 (?df ! i) - NO2 prev) (NO2 prev)) 100
           in controls_block ?df ?w =
                ([Widget (Mes (available_months ?df)),
                  Metric Metric_NO2 (FText ''.2e'' (Finite (NO2 (?df ! i))) '' mol/m2'') None,
                  Metric Metric_T21 (FText ''.1f'' (Finite (T21 (?df ! i))) '' K'') None,
                  Metric Delta_NO2 (FText ''+.1f'' delta_no2 ''%'')
                    (Some (FText ''+.1f'' delta_no2 ''%'')),
                  Metric Delta_T21 (FText ''+.1f'' (Finite (T21 (?df ! i) - T21 prev)) '' K'')
                    (Some (FText ''+.1f'' (Finite (T21 (?df ! i) - T21 prev)) '' K'')),
                  St_info Usa_las_pestanas], Completed)
              \<and> (NO2 prev \<noteq> 0 \<longrightarrow>
                   delta_no2 = Finite ((NO2 (?df ! i) - NO2 prev) / NO2 prev * 100))
              \<and> (NO2 prev = 0 \<longrightarrow> (\<forall>x. delta_no2 \<noteq> Finite x)))"
      by blast
    have "i < 2" using i(1) by (simp add: two_months_def)
    then have "i = 0 \<or> i = 1" by auto
    with i(2) jan s have i1: "i = 1" by auto
    from later show ?thesis
      unfolding i1 by (simp add: Let_def two_months_months) (simp add: two_months_def)
  qed
  show ?thesis
    using jan m later_row [of 2 300 3 310 Vista_individual]
      later_row [of 0 300 3 310 Vista_individual] d
    by (simp add: s two_months_months)
qed

subsection \<open>Correlation\<close>

lemma dot_square_expand:
  "length a = length b \<Longrightarrow>
   sum_list (map2 (\<lambda>x y. (u * y - v * x)\<^sup>2) a (b :: real list))
     = u\<^sup>2 * dot b b - 2 * u * v * dot a b + v\<^sup>2 * dot a a"
  by (induction a b rule: list_induct2) (simp_all add: dot_def algebra_simps power2_eq_square)

lemma sum_squares_nonneg:
  "0 \<le> sum_list (map2 (\<lambda>x y. (u * y - v * x)\<^sup>2) a (b :: real list))"
  by (rule sum_list_nonneg) auto

lemma dot_self_nonneg: "0 \<le> dot a a"
  unfolding dot_def by (rule sum_list_nonneg) (auto simp: set_zip)

lemma cauchy_schwarz_dot:
  assumes len: "length a = length b" and pos: "0 < dot a a"
  shows "(dot a b)\<^sup>2 \<le> dot a a * dot b b"
proof -
  let ?A = "dot a a" and ?B = "dot b b" and ?C = "dot a b"
  have "0 \<le> ?A\<^sup>2 * ?B - 2 * ?A * ?C * ?C + ?C\<^sup>2 * ?A"
    using sum_squares_nonneg [of ?A ?C a b] dot_square_expand [OF len, of ?A ?C] by simp
  also have "\<dots> = ?A * (?A * ?B - ?C\<^sup>2)"
    by (simp add: algebra_simps power2_eq_square)
  finally have "0 \<le> ?A * ?B - ?C\<^sup>2"
    using pos by (simp add: zero_le_mult_iff)
  then show ?thesis by simp
qed

lemma pearson_bounded:
  assumes len: "length xs = length ys" and n: "2 \<le> length xs"
    and vx: "cov xs xs \<noteq> 0" and vy: "cov ys ys \<noteq> 0"
  shows "\<bar>pearson xs ys\<bar> \<le> 1"
proof -
  let ?a = "demean xs" and ?b = "demean ys"
  let ?m = "real (length xs) - 1"
  have m: "0 < ?m" using n by simp
  have m': "real (length ys) - 1 = ?m" using len by simp
  have lab: "length ?a = length ?b" using len by (simp add: demean_def)
  have A: "cov xs xs = dot ?a ?a / ?m" and B: "cov ys ys = dot ?b ?b / ?m"
    and C: "cov xs ys = dot ?a ?b / ?m"
    using m' by (simp_all add: cov_def)
  have Apos: "0 < dot ?a ?a" using vx dot_self_nonneg [of ?a] A by (cases "dot ?a ?a = 0") auto
  have Bpos: "0 < dot ?b ?b" using vy dot_self_nonneg [of ?b] B by (cases "dot ?b ?b = 0") auto
  have cs: "(dot ?a ?b)\<^sup>2 \<le> dot ?a ?a * dot ?b ?b"
    by (rule cauchy_schwarz_dot [OF lab Apos])
  have "\<bar>dot ?a ?b\<bar> = sqrt ((dot ?a ?b)\<^sup>2)" by simp
  also have "\<dots> \<le> sqrt (dot ?a ?a * dot ?b ?b)" using cs by (simp only: real_sqrt_le_iff)
  finally have abs_le: "\<bar>dot ?a ?b\<bar> \<le> sqrt (dot ?a ?a) * sqrt (dot ?b ?b)"
    by (simp add: real_sqrt_mult)
  have sA: "0 < sqrt (dot ?a ?a)" and sB: "0 < sqrt (dot ?b ?b)" and sm: "0 < sqrt ?m"
    using Apos Bpos m by simp_all
  have "pearson xs ys = dot ?a ?b / (sqrt (dot ?a ?a) * sqrt (dot ?b ?b))"
  proof -
    have "pearson xs ys = (dot ?a ?b / ?m) / (sqrt (dot ?a ?a) / sqrt ?m) / (sqrt (dot ?b ?b) / sqrt ?m)"
      by (simp add: pearson_def A B C real_sqrt_divide)
    also have "\<dots> = dot ?a ?b * (sqrt ?m * sqrt ?m) / ?m / (sqrt (dot ?a ?a) * sqrt (dot ?b ?b))"
      by (simp add: field_simps)
    also have "sqrt ?m * sqrt ?m = ?m" using m by simp
    finally show ?thesis using m by simp
  qed
  then have "\<bar>pearson xs ys\<bar> = \<bar>dot ?a ?b\<bar> / (sqrt (dot ?a ?a) * sqrt (dot ?b ?b))"
    using sA sB by (simp add: abs_mult)
  also have "\<dots> \<le> 1" using abs_le sA sB by (simp add: field_simps)
  finally show ?thesis .
qed

text \<open>In exact arithmetic the quotient of a table with at least two rows and two
  columns of non-zero variance is already in [-1, 1] (Cauchy-Schwarz), so the clipping
  only removes what rounding adds.\<close>

lemma exact_quotient_in_range:
  assumes "length xs = length ys"
  shows "exact_quotient xs ys = NaN
       \<or> (exact_quotient xs ys = Finite (pearson xs ys) \<and> \<bar>pearson xs ys\<bar> \<le> 1)"
  using pearson_bounded [OF assms] by (auto simp: exact_quotient_def)

lemma np_clip_cases:
  "np_clip v (-1) 1 = NaN \<longleftrightarrow> v = NaN"
  "np_clip v (-1) 1 \<noteq> NaN \<Longrightarrow> \<exists>c. np_clip v (-1) 1 = Finite c \<and> -1 \<le> c \<and> c \<le> 1"
  "-1 \<le> q \<Longrightarrow> q \<le> 1 \<Longrightarrow> np_clip (Finite q) (-1) 1 = Finite q"
  by (cases v; simp add: min_def max_def)+

lemma float_literals:
  "0 < float_0_3" "float_0_3 < float_0_7" "float_0_7 < 1"
  "\<bar>float_0_3 - 3 / 10\<bar> < 1 / 2 ^ 54" "\<bar>float_0_7 - 7 / 10\<bar> < 1 / 2 ^ 52"
  by (simp_all add: float_0_3_def float_0_7_def)

text \<open>Claim C2, as amended. The coefficient is NaN exactly when the float quotient is,
  and otherwise it is a number in [-1, 1]; a quotient that is already in [-1, 1] is
  returned as it is. The labels partition the reals at the two float literals, which
  lie within 2^-54 and 2^-52 of 0.3 and 0.7: weak exactly below the first, moderate
  exactly from the first up to the second, strong exactly from the second on.\<close>

theorem correlation_in_range_and_labelled:
  "(correlation fq df = NaN \<longleftrightarrow> fq (map NO2 df) (map T21 df) = NaN)
   \<and> (correlation fq df \<noteq> NaN \<longrightarrow>
        (\<exists>c. correlation fq df = Finite c \<and> -1 \<le> c \<and> c \<le> 1))
   \<and> (\<forall>q. fq (map NO2 df) (map T21 df) = Finite q \<and> -1 \<le> q \<and> q \<le> 1 \<longrightarrow>
        correlation fq df = Finite q)
   \<and> (interpretation_of (Finite r) = Correlacion_Debil \<longleftrightarrow> \<bar>r\<bar> < float_0_3)
   \<and> (interpretation_of (Finite r) = Correlacion_Moderada
        \<longleftrightarrow> float_0_3 \<le> \<bar>r\<bar> \<and> \<bar>r\<bar> < float_0_7)
   \<and> (interpretation_of (Finite r) = Correlacion_Fuerte \<longleftrightarrow> float_0_7 \<le> \<bar>r\<bar>)
   \<and> 0 < float_0_3 \<and> float_0_3 < float_0_7 \<and> float_0_7 < 1
   \<and> \<bar>float_0_3 - 3 / 10\<bar> < 1 / 2 ^ 54 \<and> \<bar>float_0_7 - 7 / 10\<bar> < 1 / 2 ^ 52"
proof -
  have lt: "float_0_3 < float_0_7" by (rule float_literals)
  have lab: "(interpretation_of (Finite r) = Correlacion_Debil \<longleftrightarrow> \<bar>r\<bar> < float_0_3)
   \<and> (interpretation_of (Finite r) = Correlacion_Moderada
        \<longleftrightarrow> float_0_3 \<le> \<bar>r\<bar> \<and> \<bar>r\<bar> < float_0_7)
   \<and> (interpretation_of (Finite r) = Correlacion_Fuerte \<longleftrightarrow> float_0_7 \<le> \<bar>r\<bar>)"
    using lt by auto
  have nan: "correlation fq df = NaN \<longleftrightarrow> fq (map NO2 df) (map T21 df) = NaN"
    by (simp add: correlation_def np_clip_cases(1))
  have rng: "\<exists>c. correlation fq df = Finite c \<and> -1 \<le> c \<and> c \<le> 1"
    if "correlation fq df \<noteq> NaN"
    using that np_clip_cases(2) [of "fq (map NO2 df) (map T21 df)"]
    by (simp add: correlation_def)
  have keep: "correlation fq df = Finite q"
    if "fq (map NO2 df) (map T21 df) = Finite q" "-1 \<le> q" "q \<le> 1" for q
    using that by (simp add: correlation_def np_clip_cases(3))
  show ?thesis
    using lab nan rng keep float_literals by blast
qed

text \<open>Claim C2 as stated fails on a two-row table whose T21 values are equal (NO2 2 and
  3, T21 300 and 300): the mean of the T21 column is exactly 300, its deviations, its
  variance and the covariance are exactly 0, the quotient ends in 0/0, and the
  coefficient is NaN, not a number in [-1, 1]. The table has two rows and a non-zero
  NO2 value, so the script reaches line 535.\<close>

theorem correlation_nan_counterexample:
  "correlation exact_quotient (two_months 2 300 3 300) = NaN"
  by (simp add: correlation_def exact_quotient_def two_months_def cov_def dot_def
        demean_def mean_def)

theorem correlation_in_range_and_labelled_witness:
  "correlation exact_quotient example_df \<noteq> NaN
   \<and> (\<exists>c. correlation exact_quotient example_df = Finite c \<and> -1 \<le> c \<and> c \<le> 1)
   \<and> exact_quotient (map NO2 example_df) (map T21 example_df)
        = Finite (pearson (map NO2 example_df) (map T21 example_df))
   \<and> -1 \<le> pearson (map NO2 example_df) (map T21 example_df)
   \<and> pearson (map NO2 example_df) (map T21 example_df) \<le> 1
   \<and> correlation exact_quotient example_df
        = Finite (pearson (map NO2 example_df) (map T21 example_df))
   \<and> (1 :: real) / 2 < float_0_7
   \<and> interpretation_of (Finite (1 / 2)) = Correlacion_Moderada"
proof -
  let ?xs = "map NO2 example_df" and ?ys = "map T21 example_df"
  have c: "cov ?xs ?xs = 1 / 2" "cov ?ys ?ys = 50"
    by (simp_all add: cov_def dot_def demean_def mean_def example_df_def)
  have q: "exact_quotient ?xs ?ys = Finite (pearson ?xs ?ys)"
    by (simp add: exact_quotient_def c) (simp add: example_df_def)
  have "\<bar>pearson ?xs ?ys\<bar> \<le> 1"
    using exact_quotient_in_range [of ?xs ?ys] q by simp
  then have b: "-1 \<le> pearson ?xs ?ys" "pearson ?xs ?ys \<le> 1" by (simp_all add: abs_le_iff)
  note t = correlation_in_range_and_labelled [of exact_quotient example_df "1 / 2"]
  from t q b have k: "correlation exact_quotient example_df = Finite (pearson ?xs ?ys)"
    by blast
  then have n: "correlation exact_quotient example_df \<noteq> NaN" by simp
  with t have r: "\<exists>c. correlation exact_quotient example_df = Finite c \<and> -1 \<le> c \<and> c \<le> 1"
    by blast
  have h: "float_0_3 \<le> \<bar>1 / 2 :: real\<bar>" "\<bar>1 / 2 :: real\<bar> < float_0_7"
    by (simp_all add: float_0_3_def float_0_7_def)
  with t have m: "interpretation_of (Finite (1 / 2)) = Correlacion_Moderada" by blast
  from h(2) have "(1 :: real) / 2 < float_0_7" by simp
  with n r q b k m show ?thesis by blast
qed

subsection \<open>Memoised loading and the data-table view\<close>

lemma those_map_Some: "those (map (\<lambda>x. Some (g x)) xs) = Some (map g xs)"
  by (induction xs) simp_all

lemma setitem_frame:
  assumes "setitem st a c vs = Inr st'"
  shows "\<forall>b. b \<noteq> a \<longrightarrow> objects st' b = objects st b"
  using assms by (auto simp: setitem_def split: option.splits)

lemma apply_column_frame:
  assumes "apply_column st a c g = Inr st'"
  shows "\<forall>b. b \<noteq> a \<longrightarrow> objects st' b = objects st b"
  using assms setitem_frame
  by (auto simp: apply_column_def split: option.splits)

lemma df_copy_frame:
  assumes "df_copy st df = Inr (st1, d)"
  shows "d = next_addr st" and "\<forall>b. b \<noteq> d \<longrightarrow> objects st1 b = objects st b"
  using assms by (auto simp: df_copy_def split: option.splits)

lemma table_view_frame:
  assumes "table_view st df = Inr (st', df_display)"
  shows "df_display = next_addr st"
    and "\<forall>b. b \<noteq> next_addr st \<longrightarrow> objects st' b = objects st b"
proof -
  from assms obtain st1 st2 st3 where
    c: "df_copy st df = Inr (st1, df_display)"
    and a1: "apply_column st1 df_display Col_Fecha dt_strftime_Ym = Inr st2"
    and a2: "apply_column st2 df_display Col_NO2 (format_float ''.2e'') = Inr st3"
    and a3: "apply_column st3 df_display Col_T21 (format_float ''.2f'') = Inr st'"
    by (auto simp: table_view_def split: sum.splits prod.splits)
  from df_copy_frame [OF c] show d: "df_display = next_addr st" by simp
  show "\<forall>b. b \<noteq> next_addr st \<longrightarrow> objects st' b = objects st b"
    using df_copy_frame(2) [OF c] apply_column_frame [OF a1] apply_column_frame [OF a2]
      apply_column_frame [OF a3] d
    by simp
qed

lemma table_view_result:
  assumes "objects st df = Some (to_frame t)"
  shows "\<exists>st'. table_view st df = Inr (st', next_addr st)
          \<and> objects st' (next_addr st) =
              Some \<lparr>col_Fecha = map (\<lambda>r. Str (strftime_Ym (Fecha r))) t,
                    col_NO2 = map (\<lambda>r. Fmt (FText ''.2e'' (Finite (NO2 r)) [])) t,
                    col_T21 = map (\<lambda>r. Fmt (FText ''.2f'' (Finite (T21 r)) [])) t\<rparr>"
  using assms
  by (simp add: table_view_def df_copy_def apply_column_def setitem_def to_frame_def
        comp_def those_map_Some)

lemma polyfit_fails_iff: "polyfit_fails x \<longleftrightarrow> (\<forall>v\<in>set x. v = 0)"
proof -
  have "sum_list (map (\<lambda>v. v * v) x) = 0 \<longleftrightarrow> (\<forall>u\<in>set (map (\<lambda>v. v * v) x). u = 0)"
    by (rule sum_list_nonneg_eq_0_iff) auto
  then show ?thesis by (simp add: polyfit_fails_def)
qed

lemma polyfit_fails_range: "polyfit_fails (map real [0..<n]) \<longleftrightarrow> n < 2"
proof
  assume f: "polyfit_fails (map real [0..<n])"
  show "n < 2"
  proof (rule ccontr)
    assume "\<not> n < 2"
    then have "real 1 \<in> set (map real [0..<n])" by auto
    with f show False unfolding polyfit_fails_iff by fastforce
  qed
next
  assume "n < 2"
  then show "polyfit_fails (map real [0..<n])"
    by (auto simp: polyfit_fails_iff)
qed

lemma series_tab_fails:
  "length t < 2 \<Longrightarrow> series_tab t = ([Subheader ''Evolucion Temporal''], Raised LinAlgError)"
  by (simp add: series_tab_def polyfit_fails_range then_render_def shows_only_def)

lemma series_tab_shows:
  assumes "2 \<le> length t"
  shows "series_tab t =
     ([Subheader ''Evolucion Temporal'', Plotly_chart Series_temporales,
       Markdown Estadisticas, Resumen_anual,
       St_dataframe
         \<lparr>col_Fecha = map (\<lambda>r. Str (strftime_Ym (Fecha r))) t,
          col_NO2 = map (\<lambda>r. Fmt (FText ''.2e'' (Finite (NO2 r)) [])) t,
          col_T21 = map (\<lambda>r. Fmt (FText ''.2f'' (Finite (T21 r)) [])) t\<rparr>], Completed)"
proof -
  let ?st = "\<lparr>objects = (\<lambda>a. None)(0 := Some (to_frame t)), next_addr = 1\<rparr>"
  have "objects ?st 0 = Some (to_frame t)" by simp
  from table_view_result [OF this] assms
  show ?thesis
    by (auto simp: series_tab_def polyfit_fails_range then_render_def shows_only_def)
qed

lemma page_keeps_cache: "snd (page LANCZOS fs w (Some res)) = Some res"
  by (cases res) (simp add: page_def load_data_cached_def)

text \<open>Claim C7. \<open>load_data\<close> runs once: the first call stores its result, and a
  later call returns the stored result whatever the files hold then; rendering a page
  leaves the stored result as it is. The data-table view allocates a copy and formats
  the copy: every object that existed before the view, the loaded table among them, is
  unchanged after it, and for the loaded table the view succeeds and the copy holds the
  formatted cells.\<close>

theorem loaded_data_read_once_and_not_mutated:
  "(load_data fs = Inr res \<longrightarrow>
       load_data_cached None fs = (Inr res, Some res)
     \<and> load_data_cached (Some res) fs' = (Inr res, Some res)
     \<and> snd (page LANCZOS fs' w (Some res)) = Some res)
   \<and> (df < next_addr st \<and> table_view st df = Inr (st', df_display) \<longrightarrow>
       df_display \<noteq> df \<and> (\<forall>a. a < next_addr st \<longrightarrow> objects st' a = objects st a))
   \<and> (df < next_addr st \<and> objects st df = Some (to_frame t) \<longrightarrow>
       (\<exists>st''. table_view st df = Inr (st'', next_addr st)
          \<and> objects st'' df = Some (to_frame t)
          \<and> objects st'' (next_addr st) =
              Some \<lparr>col_Fecha = map (\<lambda>r. Str (strftime_Ym (Fecha r))) t,
                    col_NO2 = map (\<lambda>r. Fmt (FText ''.2e'' (Finite (NO2 r)) [])) t,
                    col_T21 = map (\<lambda>r. Fmt (FText ''.2f'' (Finite (T21 r)) [])) t\<rparr>))"
proof -
  have 1: "load_data_cached None fs = (Inr res, Some res)
     \<and> load_data_cached (Some res) fs' = (Inr res, Some res)
     \<and> snd (page LANCZOS fs' w (Some res)) = Some res"
    if "load_data fs = Inr res"
    using that by (simp add: load_data_cached_def page_keeps_cache)
  have 2: "df_display \<noteq> df \<and> (\<forall>a. a < next_addr st \<longrightarrow> objects st' a = objects st a)"
    if "df < next_addr st" "table_view st df = Inr (st', df_display)"
    using table_view_frame [OF that(2)] that(1) by auto
  have 3: "\<exists>st''. table_view st df = Inr (st'', next_addr st)
          \<and> objects st'' df = Some (to_frame t)
          \<and> objects st'' (next_addr st) =
              Some \<lparr>col_Fecha = map (\<lambda>r. Str (strftime_Ym (Fecha r))) t,
                    col_NO2 = map (\<lambda>r. Fmt (FText ''.2e'' (Finite (NO2 r)) [])) t,
                    col_T21 = map (\<lambda>r. Fmt (FText ''.2f'' (Finite (T21 r)) [])) t\<rparr>"
    if h: "df < next_addr st" "objects st df = Some (to_frame t)"
  proof -
    from table_view_result [OF h(2)] obtain st'' where
      r: "table_view st df = Inr (st'', next_addr st)"
      "objects st'' (next_addr st) =
              Some \<lparr>col_Fecha = map (\<lambda>r. Str (strftime_Ym (Fecha r))) t,
                    col_NO2 = map (\<lambda>r. Fmt (FText ''.2e'' (Finite (NO2 r)) [])) t,
                    col_T21 = map (\<lambda>r. Fmt (FText ''.2f'' (Finite (T21 r)) [])) t\<rparr>"
      by blast
    from table_view_frame(2) [OF r(1)] h have "objects st'' df = Some (to_frame t)"
      by auto
    with r show ?thesis by blast
  qed
  from 1 2 3 show ?thesis by blast
qed

theorem loaded_data_read_once_and_not_mutated_witness:
  "load_data (example_fs (Content example_df) (Content ''{}''))
      = Inr (Some example_df, Some ''{}'', None)
   \<and> load_data_cached (Some (Some example_df, Some ''{}'', None)) (example_fs Absent Absent)
      = (Inr (Some example_df, Some ''{}'', None), Some (Some example_df, Some ''{}'', None))
   \<and> (0 :: nat) < next_addr example_store
   \<and> objects example_store 0 = Some (to_frame example_df)
   \<and> (\<exists>st''. table_view example_store 0 = Inr (st'', 1)
          \<and> objects st'' 0 = Some (to_frame example_df)
          \<and> objects st'' 1 =
              Some \<lparr>col_Fecha = [Str ''2024-01'', Str ''2024-02''],
                    col_NO2 = [Fmt (FText ''.2e'' (Finite 2) []), Fmt (FText ''.2e'' (Finite 3) [])],
                    col_T21 = [Fmt (FText ''.2f'' (Finite 300) []),
                               Fmt (FText ''.2f'' (Finite 310) [])]\<rparr>
          \<and> 0 \<noteq> next_addr example_store
          \<and> objects st'' 0 = objects example_store 0)"
proof -
  have l: "load_data (example_fs (Content example_df) (Content ''{}''))
      = Inr (Some example_df, Some ''{}'', None)"
    by (simp add: load_data_def example_fs_def)
  have s: "(0 :: nat) < next_addr example_store"
    "objects example_store 0 = Some (to_frame example_df)"
    by (simp_all add: example_store_def)
  have n: "next_addr example_store = 1" by (simp add: example_store_def)
  note t = loaded_data_read_once_and_not_mutated
      [of "example_fs (Content example_df) (Content ''{}'')"
          "(Some example_df, Some ''{}'', None)" "example_fs Absent Absent"
          nearest "example_widgets ''2024-02'' Vista_individual" 0 example_store
          _ _ example_df]
  from t l have c: "load_data_cached (Some (Some example_df, Some ''{}'', None))
        (example_fs Absent Absent)
      = (Inr (Some example_df, Some ''{}'', None), Some (Some example_df, Some ''{}'', None))"
    by blast
  from t s obtain st'' where v: "table_view example_store 0 = Inr (st'', next_addr example_store)"
    "objects st'' 0 = Some (to_frame example_df)"
    "objects st'' (next_addr example_store) =
        Some \<lparr>col_Fecha = map (\<lambda>r. Str (strftime_Ym (Fecha r))) example_df,
              col_NO2 = map (\<lambda>r. Fmt (FText ''.2e'' (Finite (NO2 r)) [])) example_df,
              col_T21 = map (\<lambda>r. Fmt (FText ''.2f'' (Finite (T21 r)) [])) example_df\<rparr>"
    by blast
  have "objects st'' 1 =
              Some \<lparr>col_Fecha = [Str ''2024-01'', Str ''2024-02''],
                    col_NO2 = [Fmt (FText ''.2e'' (Finite 2) []), Fmt (FText ''.2e'' (Finite 3) [])],
                    col_T21 = [Fmt (FText ''.2f'' (Finite 300) []),
                               Fmt (FText ''.2f'' (Finite 310) [])]\<rparr>"
    using v(3) by (simp add: n example_df_def digit_char_def)
  with v(1,2) s n l c show ?thesis by auto
qed

subsection \<open>Missing rasters in the map view\<close>

lemma overlay_returns: "\<exists>result. overlay flt o1 o2 bm img_no2 img_t21 = Inr result"
  by (simp add: overlay_def Let_def alpha_composite_def Image_new_def putalpha_def
        im_size_ensure)

lemma overlay_not_Inl: "overlay flt o1 o2 bm img_no2 img_t21 \<noteq> Inl e"
  using overlay_returns [of flt o1 o2 bm img_no2 img_t21] by auto

lemma superposicion_completes: "snd (superposicion flt fs w) = Completed"
  by (auto simp: superposicion_def then_render_def shows_only_def overlay_not_Inl
        split: option.splits sum.splits)

lemma map_tab_completes: "snd (map_tab flt fs w) = Completed"
  using superposicion_completes [of flt fs w]
  by (simp add: map_tab_def then_render_def shows_only_def split: view_mode.splits)

lemma then_render_completed:
  "snd a = Completed \<Longrightarrow> then_render a b = (fst a @ fst b, snd b)"
  by (simp add: then_render_def)

lemma correlation_tab_shows:
  assumes "\<exists>r\<in>set df. NO2 r \<noteq> 0"
  shows "correlation_tab df =
     ([Subheader ''Analisis de Correlacion'', Plotly_chart Dispersion,
       Markdown (Coeficiente_de_correlacion (map NO2 df) (map T21 df)),
       Markdown Salto_de_linea,
       Interpretacion (map NO2 df) (map T21 df),
       Markdown Salto_de_linea,
       Markdown Interpretacion_texto], Completed)"
  using assms
  by (auto simp: correlation_tab_def polyfit_fails_iff then_render_def shows_only_def)

lemma correlation_tab_fails:
  assumes "\<forall>r\<in>set df. NO2 r = 0"
  shows "correlation_tab df = ([Subheader ''Analisis de Correlacion''], Raised LinAlgError)"
  using assms
  by (auto simp: correlation_tab_def polyfit_fails_iff then_render_def shows_only_def)

text \<open>The map tab never ends the run: the page after it is what the later tabs make of
  the table, whatever the rasters are.\<close>

lemma dashboard_after_map:
  assumes "selected_month w \<in> set (available_months df)"
  shows "dashboard flt fs w df =
     (fst header_block @ fst (controls_block df w) @ fst tabs_bar @ fst (map_tab flt fs w)
        @ fst (then_render (series_tab df)
                 (then_render (correlation_tab df) (then_render info_tab footer))),
      snd (then_render (series_tab df)
             (then_render (correlation_tab df) (then_render info_tab footer))))"
proof -
  from rows_of_month_nonempty [OF assms]
  have c: "snd (controls_block df w) = Completed"
    by (auto simp: controls_block_def shows_only_def split: list.splits)
  have o: "snd header_block = Completed" "snd tabs_bar = Completed"
    by (simp_all add: header_block_def tabs_bar_def shows_only_def)
  show ?thesis
    by (simp add: dashboard_def then_render_completed c o map_tab_completes)
qed

lemma dashboard_completes:
  assumes "selected_month w \<in> set (available_months df)"
    and "2 \<le> length df" and "\<exists>r\<in>set df. NO2 r \<noteq> 0"
  shows "dashboard flt fs w df =
     (fst header_block @ fst (controls_block df w) @ fst tabs_bar @ fst (map_tab flt fs w)
        @ fst (series_tab df) @ fst (correlation_tab df) @ fst info_tab @ fst footer,
      Completed)"
proof -
  have o: "snd (series_tab df) = Completed" "snd (correlation_tab df) = Completed"
    "snd info_tab = Completed" "snd footer = Completed"
    using series_tab_shows [OF assms(2)] correlation_tab_shows [OF assms(3)]
    by (simp_all add: info_tab_def footer_def shows_only_def)
  show ?thesis
    by (simp add: dashboard_after_map [OF assms(1)] then_render_completed o)
qed

text \<open>Claim C9, as amended. With the directory present, the map view always runs to its
  end. In the side-by-side mode the panel of a missing raster shows an error that names
  the file and the other panel shows its image; in the overlay mode a single error
  replaces the composite and no layer is shown; in the single-layer mode a missing
  selected layer gives an error. In every mode the legends and the tips follow. For a
  month of the selector the run goes on after the map tab with the later tabs, which
  depend on the table only; on a table of at least two rows with a non-zero NO2 value
  the whole dashboard (header, controls, all four tabs, footer) is rendered.\<close>

theorem missing_raster_does_not_halt:
  assumes "monthly_images_exists fs"
  shows "snd (map_tab LANCZOS fs w) = Completed
    \<and> (view_mode_w w = Comparacion_lado_a_lado
         \<and> png_files fs (png_name ''no2'' (selected_month w)) = None
         \<and> png_files fs (png_name ''t21'' (selected_month w)) = Some img \<longrightarrow>
        fst (map_tab LANCZOS fs w) =
          [Subheader (selected_month w), Widget Modo_de_visualizacion, Markdown Separador,
           Markdown Titulo_NO2,
           St_error (Imagen_no_disponible_nombre (png_name ''no2'' (selected_month w))),
           Markdown Titulo_T21, St_image img,
           Markdown Leyendas_de_colores, St_info Tips_de_uso])
    \<and> (view_mode_w w = Comparacion_lado_a_lado
         \<and> png_files fs (png_name ''no2'' (selected_month w)) = Some img
         \<and> png_files fs (png_name ''t21'' (selected_month w)) = None \<longrightarrow>
        fst (map_tab LANCZOS fs w) =
          [Subheader (selected_month w), Widget Modo_de_visualizacion, Markdown Separador,
           Markdown Titulo_NO2, St_image img,
           Markdown Titulo_T21,
           St_error (Imagen_no_disponible_nombre (png_name ''t21'' (selected_month w))),
           Markdown Leyendas_de_colores, St_info Tips_de_uso])
    \<and> (view_mode_w w = Superposicion_con_control
         \<and> (png_files fs (png_name ''no2'' (selected_month w)) = None
            \<or> png_files fs (png_name ''t21'' (selected_month w)) = None) \<longrightarrow>
        fst (map_tab LANCZOS fs w) =
          [Subheader (selected_month w), Widget Modo_de_visualizacion, Markdown Separador,
           Markdown Mapa_superpuesto, Widget Opacidad_NO2, Widget Opacidad_T21, Widget Mezcla,
           St_error Una_o_ambas_no_disponibles,
           Markdown Leyendas_de_colores, St_info Tips_de_uso])
    \<and> (view_mode_w w = Vista_individual
         \<and> png_files fs (png_name (if layer_choice_w w = Capa_NO2 then ''no2'' else ''t21'')
                           (selected_month w)) = None \<longrightarrow>
        fst (map_tab LANCZOS fs w) =
          [Subheader (selected_month w), Widget Modo_de_visualizacion, Markdown Separador,
           Widget Capa, Markdown Separador,
           Markdown (if layer_choice_w w = Capa_NO2 then Titulo_NO2 else Titulo_T21),
           St_error Imagen_no_disponible,
           Markdown Leyendas_de_colores, St_info Tips_de_uso])
    \<and> (selected_month w \<in> set (available_months df) \<longrightarrow>
        dashboard LANCZOS fs w df =
          (fst header_block @ fst (controls_block df w) @ fst tabs_bar @ fst (map_tab LANCZOS fs w)
             @ fst (then_render (series_tab df)
                      (then_render (correlation_tab df) (then_render info_tab footer))),
           snd (then_render (series_tab df)
                  (then_render (correlation_tab df) (then_render info_tab footer)))))
    \<and> (selected_month w \<in> set (available_months df) \<and> 2 \<le> length df
         \<and> (\<exists>r\<in>set df. NO2 r \<noteq> 0) \<longrightarrow>
        dashboard LANCZOS fs w df =
          (fst header_block @ fst (controls_block df w) @ fst tabs_bar @ fst (map_tab LANCZOS fs w)
             @ fst (series_tab df) @ fst (correlation_tab df) @ fst info_tab @ fst footer,
           Completed))"
proof -
  have side: "fst (map_tab LANCZOS fs w) =
      [Subheader (selected_month w), Widget Modo_de_visualizacion, Markdown Separador]
      @ lado_a_lado fs (selected_month w) @ [Markdown Leyendas_de_colores, St_info Tips_de_uso]"
    if "view_mode_w w = Comparacion_lado_a_lado"
    using that assms by (simp add: map_tab_def then_render_def shows_only_def)
  have over: "fst (map_tab LANCZOS fs w) =
      [Subheader (selected_month w), Widget Modo_de_visualizacion, Markdown Separador]
      @ fst (superposicion LANCZOS fs w) @ [Markdown Leyendas_de_colores, St_info Tips_de_uso]"
    if "view_mode_w w = Superposicion_con_control"
    using that assms superposicion_completes [of LANCZOS fs w]
    by (simp add: map_tab_def then_render_def shows_only_def)
  have indiv: "fst (map_tab LANCZOS fs w) =
      [Subheader (selected_month w), Widget Modo_de_visualizacion, Markdown Separador]
      @ vista_individual fs w @ [Markdown Leyendas_de_colores, St_info Tips_de_uso]"
    if "view_mode_w w = Vista_individual"
    using that assms by (simp add: map_tab_def then_render_def shows_only_def)
  have o: "fst (superposicion LANCZOS fs w) =
      [Markdown Mapa_superpuesto, Widget Opacidad_NO2, Widget Opacidad_T21, Widget Mezcla,
       St_error Una_o_ambas_no_disponibles]"
    if "png_files fs (png_name ''no2'' (selected_month w)) = None
            \<or> png_files fs (png_name ''t21'' (selected_month w)) = None"
    using that
    by (auto simp: superposicion_def then_render_def shows_only_def split: option.splits)
  show ?thesis
    using map_tab_completes [of LANCZOS fs w] dashboard_completes [of w df LANCZOS fs]
      dashboard_after_map [of w df LANCZOS fs]
    by (auto simp: side over indiv o lado_a_lado_def vista_individual_def)
qed

lemma example_pngs:
  "png_files (example_fs c m) (png_name ''no2'' ''2024-02'')
     = Some \<lparr>im_size = (1, 1), im_data = [(10, 20, 30, 255)]\<rparr>"
  "png_files (example_fs c m) (png_name ''t21'' ''2024-02'') = None"
  "monthly_images_exists (example_fs c m)"
  by (simp_all add: example_fs_def png_name_def)

theorem missing_raster_does_not_halt_witness:
  "monthly_images_exists (example_fs (Content example_df) (Content ''{}''))
   \<and> png_files (example_fs (Content example_df) (Content ''{}'')) (png_name ''no2'' ''2024-02'')
       = Some \<lparr>im_size = (1, 1), im_data = [(10, 20, 30, 255)]\<rparr>
   \<and> png_files (example_fs (Content example_df) (Content ''{}'')) (png_name ''t21'' ''2024-02'')
       = None
   \<and> ''2024-02'' \<in> set (available_months example_df)
   \<and> 2 \<le> length example_df \<and> NO2 (example_df ! 0) \<noteq> 0
   \<and> fst (map_tab nearest (example_fs (Content example_df) (Content ''{}''))
            (example_widgets ''2024-02'' Comparacion_lado_a_lado)) =
          [Subheader ''2024-02'', Widget Modo_de_visualizacion, Markdown Separador,
           Markdown Titulo_NO2, St_image \<lparr>im_size = (1, 1), im_data = [(10, 20, 30, 255)]\<rparr>,
           Markdown Titulo_T21,
           St_error (Imagen_no_disponible_nombre ''t21_2024-02.png''),
           Markdown Leyendas_de_colores, St_info Tips_de_uso]
   \<and> fst (map_tab nearest (example_fs (Content example_df) (Content ''{}''))
            (example_widgets ''2024-02'' Superposicion_con_control)) =
          [Subheader ''2024-02'', Widget Modo_de_visualizacion, Markdown Separador,
           Markdown Mapa_superpuesto, Widget Opacidad_NO2, Widget Opacidad_T21, Widget Mezcla,
           St_error Una_o_ambas_no_disponibles,
           Markdown Leyendas_de_colores, St_info Tips_de_uso]
   \<and> snd (dashboard nearest (example_fs (Content example_df) (Content ''{}''))
            (example_widgets ''2024-02'' Comparacion_lado_a_lado) example_df) = Completed"
proof -
  let ?fs = "example_fs (Content example_df) (Content ''{}'')"
  let ?img = "\<lparr>im_size = (1, 1), im_data = [(10 :: u8, 20 :: u8, 30 :: u8, 255 :: u8)]\<rparr>"
  have m: "''2024-02'' \<in> set (available_months example_df)"
    by (simp add: months_example)
  have w: "selected_month (example_widgets ''2024-02'' mode) = ''2024-02''"
    "view_mode_w (example_widgets ''2024-02'' mode) = mode" for mode
    by (simp_all add: example_widgets_def)
  have n: "png_name ''t21'' ''2024-02'' = ''t21_2024-02.png''"
    by (simp add: png_name_def)
  note f = example_pngs [of "Content example_df" "Content ''{}''"]
  have h: "2 \<le> length example_df" "NO2 (example_df ! 0) \<noteq> 0"
    "\<exists>r\<in>set example_df. NO2 r \<noteq> 0"
    by (simp_all add: example_df_def)
  note side = missing_raster_does_not_halt
         [OF f(3), of nearest "example_widgets ''2024-02'' Comparacion_lado_a_lado" ?img example_df]
  note over = missing_raster_does_not_halt
         [OF f(3), of nearest "example_widgets ''2024-02'' Superposicion_con_control" ?img example_df]
  from side [THEN conjunct2, THEN conjunct2, THEN conjunct1] f
  have a: "fst (map_tab nearest ?fs (example_widgets ''2024-02'' Comparacion_lado_a_lado)) =
          [Subheader ''2024-02'', Widget Modo_de_visualizacion, Markdown Separador,
           Markdown Titulo_NO2, St_image ?img,
           Markdown Titulo_T21,
           St_error (Imagen_no_disponible_nombre ''t21_2024-02.png''),
           Markdown Leyendas_de_colores, St_info Tips_de_uso]"
    by (simp add: w n)
  from over [THEN conjunct2, THEN conjunct2, THEN conjunct2, THEN conjunct1] f
  have b: "fst (map_tab nearest ?fs (example_widgets ''2024-02'' Superposicion_con_control)) =
          [Subheader ''2024-02'', Widget Modo_de_visualizacion, Markdown Separador,
           Markdown Mapa_superpuesto, Widget Opacidad_NO2, Widget Opacidad_T21, Widget Mezcla,
           St_error Una_o_ambas_no_disponibles,
           Markdown Leyendas_de_colores, St_info Tips_de_uso]"
    by (simp add: w)
  from side [THEN conjunct2, THEN conjunct2, THEN conjunct2, THEN conjunct2, THEN conjunct2,
             THEN conjunct2] m h(1,3)
  have "dashboard nearest ?fs (example_widgets ''2024-02'' Comparacion_lado_a_lado) example_df =
          (fst header_block
             @ fst (controls_block example_df (example_widgets ''2024-02'' Comparacion_lado_a_lado))
             @ fst tabs_bar
             @ fst (map_tab nearest ?fs (example_widgets ''2024-02'' Comparacion_lado_a_lado))
             @ fst (series_tab example_df) @ fst (correlation_tab example_df) @ fst info_tab
             @ fst footer,
           Completed)"
    by (simp add: w)
  then have c: "snd (dashboard nearest ?fs (example_widgets ''2024-02'' Comparacion_lado_a_lado)
                   example_df) = Completed"
    by simp
  show ?thesis
    using f m h(1,2) a b c by simp
qed

text \<open>Claim C9 as stated fails in the overlay mode: with the NO2 raster present and the
  T21 raster missing, the only message is the one for "one or both images", and the NO2
  raster is not displayed.\<close>

theorem overlay_missing_raster_counterexample:
  "png_files (example_fs (Content example_df) (Content ''{}'')) ''no2_2024-02.png''
       = Some \<lparr>im_size = (1, 1), im_data = [(10, 20, 30, 255)]\<rparr>
   \<and> png_files (example_fs (Content example_df) (Content ''{}'')) ''t21_2024-02.png'' = None
   \<and> map_tab nearest (example_fs (Content example_df) (Content ''{}''))
            (example_widgets ''2024-02'' Superposicion_con_control) =
          ([Subheader ''2024-02'', Widget Modo_de_visualizacion, Markdown Separador,
            Markdown Mapa_superpuesto, Widget Opacidad_NO2, Widget Opacidad_T21, Widget Mezcla,
            St_error Una_o_ambas_no_disponibles,
            Markdown Leyendas_de_colores, St_info Tips_de_uso], Completed)"
  by (simp add: map_tab_def superposicion_def example_fs_def example_widgets_def png_name_def
        then_render_def shows_only_def)

subsection \<open>Absent files that do not give the error page\<close>

text \<open>Claim C4 as stated fails in two ways. With the metadata file absent and a CSV
  file that is present but cannot be parsed, \<open>read_csv\<close> raises before the metadata is
  opened, the exception is not a FileNotFoundError, and the run ends with that exception
  after the theme selector: no message, no \<open>st.stop()\<close>. With both files absent and a
  result cached by an earlier run, \<open>load_data\<close> is not executed and the whole dashboard
  is rendered from the cached table.\<close>

theorem missing_files_counterexample:
  "metadata_json (example_fs Unreadable Absent) = Absent
   \<and> load_data (example_fs Unreadable Absent) = Inl OtherError
   \<and> fst (page nearest (example_fs Unreadable Absent)
             (example_widgets ''2024-02'' Comparacion_lado_a_lado) None)
       = ([Widget Tema, Style Claro], Raised OtherError)
   \<and> datos_no2_t21_csv (example_fs Absent Absent) = Absent
   \<and> metadata_json (example_fs Absent Absent) = Absent
   \<and> fst (page nearest (example_fs Absent Absent)
             (example_widgets ''2024-02'' Comparacion_lado_a_lado)
             (Some (Some example_df, Some ''{}'', None)))
       = ([Widget Tema, Style Claro]
          @ fst (dashboard nearest (example_fs Absent Absent)
                   (example_widgets ''2024-02'' Comparacion_lado_a_lado) example_df),
          Completed)
   \<and> Metric Metric_NO2 (FText ''.2e'' (Finite 3) '' mol/m2'') None
       \<in> set (fst (dashboard nearest (example_fs Absent Absent)
                      (example_widgets ''2024-02'' Comparacion_lado_a_lado) example_df))"
proof -
  let ?w = "example_widgets ''2024-02'' Comparacion_lado_a_lado"
  let ?fs = "example_fs Absent Absent"
  have s: "selected_month ?w = ''2024-02''" "theme_selector ?w = Claro"
    by (simp_all add: example_widgets_def)
  have m: "selected_month ?w \<in> set (available_months example_df)"
    by (simp add: s months_example)
  have h: "2 \<le> length example_df" "\<exists>r\<in>set example_df. NO2 r \<noteq> 0"
    by (simp_all add: example_df_def)
  note d = dashboard_completes [OF m h, of nearest ?fs]
  have c: "controls_block example_df ?w =
     ([Widget (Mes [''2024-01'', ''2024-02'']),
       Metric Metric_NO2 (FText ''.2e'' (Finite 3) '' mol/m2'') None,
       Metric Metric_T21 (FText ''.1f'' (Finite 310) '' K'') None]
      @ delta_metrics example_df 1 \<lparr>Fecha = (2024, 2, 1), NO2 = 3, T21 = 310\<rparr>
      @ [St_info Usa_las_pestanas], Completed)"
    by (simp add: controls_block_def s rows_feb months_example shows_only_def)
  have shown: "Metric Metric_NO2 (FText ''.2e'' (Finite 3) '' mol/m2'') None
       \<in> set (fst (dashboard nearest ?fs ?w example_df))"
    unfolding d by (simp add: c)
  have warm: "fst (page nearest ?fs ?w (Some (Some example_df, Some ''{}'', None)))
       = ([Widget Tema, Style Claro] @ fst (dashboard nearest ?fs ?w example_df), Completed)"
    unfolding d
    by (simp add: page_def load_data_cached_def theme_block_def then_render_def shows_only_def s d)
  have cold: "load_data (example_fs Unreadable Absent) = Inl OtherError"
    "fst (page nearest (example_fs Unreadable Absent) ?w None)
       = ([Widget Tema, Style Claro], Raised OtherError)"
    by (simp_all add: page_def load_data_cached_def load_data_def theme_block_def
          then_render_def shows_only_def s example_fs_def)
  show ?thesis
    using cold warm shown by (simp add: example_fs_def)
qed

end
